theory Spec2Isabelle
  imports Complex_Main "HOL-Library.Word"
begin

unbundle bit_operations_syntax

section \<open>GIFCheck: a shallow embedding of \<^verbatim>\<open>gifcheck.go\<close>\<close>

text \<open>
  The Go program validates a GIF byte stream by recursive descent over the grammar of
  Appendix B of the GIF89a specification. Every \<^verbatim>\<open>read...\<close> function takes the
  byte slice and an index and returns the advanced index or an error.

  Conventions of the embedding.
  \<^item> A byte is an \<open>8 word\<close>; the slice \<^verbatim>\<open>data\<close> is a \<open>byte list\<close> whose length is
    \<^verbatim>\<open>len(data)\<close>. Go checks a slice expression \<^verbatim>\<open>data[a:b]\<close> against the
    capacity, not the length, so the capacity \<open>c\<close> of \<^verbatim>\<open>data\<close> is a parameter of the
    functions that slice. The capacity of what \<^verbatim>\<open>os.ReadFile\<close> returns is at least
    its length.
  \<^item> The index \<^verbatim>\<open>idx\<close> is an \<open>int\<close> in Go that the program only ever increases
    from 0; it is a \<open>nat\<close> here. The \<open>-1\<close> returned beside an error is never read.
  \<^item> An index expression \<^verbatim>\<open>data[i]\<close> with \<^verbatim>\<open>i >= len(data)\<close> is a run-time panic
    in Go. A panic is not an \<^verbatim>\<open>error\<close> value: no caller's \<^verbatim>\<open>err == nil\<close> test sees
    it, it ends the program. It is the third outcome \<open>Panic\<close> of a result.
  \<^item> Every \<^verbatim>\<open>fmt.Errorf\<close> is a constructor of \<open>err\<close>; an error that wraps another
    carries it.
  \<^item> Logging prints only. What the arguments of a log call read from \<^verbatim>\<open>data\<close> is
    kept (Go evaluates them before the call, whatever the log level is); what they
    print is not.
\<close>

subsection \<open>Data\<close>

type_synonym byte = "8 word"

definition trailer :: byte where
  "trailer = 0x3b"

definition extension :: byte where
  "extension = 0x21"

datatype err =
    HeaderUnknownSignature
  | HeaderUnknownVersion
  | NoGlobalTableButBackgroundSet
  | NoExtensionIntroducer
  | GraphicControlLabelMissing
  | UnexpectedBlockSize nat
  | MissingBlockTerminator
  | NoImageSeparator
  | NotPlainTextExtension
  | PlainTextUnexpectedBlockSize
  | NotApplicationExtension
  | NotGraphicRenderingBlock
  | NotTrailer
  | ReadingDataSubBlocks err
  | GraphicControlButNoRenderingBlock err byte byte
  | UnableToReadGraphicRenderingBlock err
  | UnableToReadSpecialPurposeBlock err
  | UnableToReadDataBlocks nat nat
  | ReadHeaderFailed err
  | ReadingLogicalScreenDescriptor err
  | ReadingGlobalColourTable err
  | ReadingDataBlocks err
  | FailedToParseEntireImage nat nat

datatype 'a result = Ok 'a | Fail err | Panic

record cfg =
  logLevel :: int
  reprocess :: bool
  outFile :: string
  write' :: bool

record patch =
  index :: nat
  oldValue :: byte
  newValue :: byte

text \<open>
  The field \<^verbatim>\<open>readTrailer\<close> of \<^verbatim>\<open>gifstate\<close> shares its name with the function
  \<^verbatim>\<open>readTrailer\<close>; the field is \<open>readTrailerSeen\<close> here.
\<close>

record gifstate =
  validSignature :: bool
  readTrailerSeen :: bool
  bytesOutstanding :: nat
  patches :: "patch list"

record header =
  Signature :: string
  Version :: string

record logicalScreenDescriptor =
  Width :: nat
  Height :: nat
  HasGlobalColourTable :: bool
  ColourResolution :: nat
  GlobalColourTableSorted :: bool
  GlobalColourTableSize :: nat
  BackgroundColourIndex :: nat
  PixelAspectRatio :: nat

record applicationExtension =
  Identifier :: "byte list"
  AuthenticationCode :: "byte list"

subsection \<open>Header and Logical Screen Descriptor\<close>

text \<open>
  \<^verbatim>\<open>readHeader\<close>: the three comparisons of each test are joined by \<^verbatim>\<open>||\<close> and
  \<^verbatim>\<open>&&\<close>, which evaluate left to right and stop early, so a byte is indexed only
  when the bytes before it matched.
\<close>

definition readHeader :: "byte list \<Rightarrow> nat \<Rightarrow> (header \<times> nat) result" where
  "readHeader data idx =
    (if length data \<le> idx then Panic
     else if data ! idx \<noteq> 0x47 then Fail HeaderUnknownSignature
     else if length data \<le> idx + 1 then Panic
     else if data ! (idx + 1) \<noteq> 0x49 then Fail HeaderUnknownSignature
     else if length data \<le> idx + 2 then Panic
     else if data ! (idx + 2) \<noteq> 0x46 then Fail HeaderUnknownSignature
     else if length data \<le> idx + 3 then Panic
     else if data ! (idx + 3) \<noteq> 0x38 then Fail HeaderUnknownVersion
     else if length data \<le> idx + 4 then Panic
     else if data ! (idx + 4) = 0x37 then
       (if length data \<le> idx + 5 then Panic
        else if data ! (idx + 5) = 0x61
          then Ok (\<lparr>Signature = ''GIF'', Version = ''87a''\<rparr>, idx + 3 + 3)
        else Fail HeaderUnknownVersion)
     else if data ! (idx + 4) = 0x39 then
       (if length data \<le> idx + 5 then Panic
        else if data ! (idx + 5) = 0x61
          then Ok (\<lparr>Signature = ''GIF'', Version = ''89a''\<rparr>, idx + 3 + 3)
        else Fail HeaderUnknownVersion)
     else Fail HeaderUnknownVersion)"

text \<open>
  \<^verbatim>\<open>readLogicalScreenDescriptor\<close> skips width and height without reading them, reads
  the packed byte, the background colour index and the pixel aspect ratio.
\<close>

definition readLogicalScreenDescriptor ::
    "byte list \<Rightarrow> nat \<Rightarrow> (logicalScreenDescriptor \<times> nat) result" where
  "readLogicalScreenDescriptor data idx =
    (let p = idx + 2 + 2 in
     if length data \<le> p then Panic
     else if length data \<le> p + 1 then Panic
     else if \<not> (data ! p AND 0x80 = 0x80) \<and> data ! (p + 1) \<noteq> 0
       then Fail NoGlobalTableButBackgroundSet
     else if length data \<le> p + 2 then Panic
     else Ok (\<lparr>Width = 0, Height = 0,
               HasGlobalColourTable = (data ! p AND 0x80 = 0x80),
               ColourResolution = unat (drop_bit 4 (data ! p AND 0x70)) + 1,
               GlobalColourTableSorted = (data ! p AND 0x08 = 0x08),
               GlobalColourTableSize = unat (data ! p AND 0x07),
               BackgroundColourIndex = unat (data ! (p + 1)),
               PixelAspectRatio = unat (data ! (p + 2))\<rparr>, p + 3))"

subsection \<open>Colour tables\<close>

text \<open>
  The size of a colour table is \<^verbatim>\<open>3 * int(math.Exp2(float64(n + 1)))\<close>.
  \<^verbatim>\<open>float64(k)\<close> is the real number \<open>k\<close> (exact below \<open>2^53\<close>), \<^verbatim>\<open>math.Exp2(x)\<close>
  is \<open>2\<close> to the power \<open>x\<close> as a real number, and \<^verbatim>\<open>int(f)\<close> drops the fraction of a
  non-negative \<open>f\<close>.
\<close>

definition float64 :: "nat \<Rightarrow> real" where
  "float64 k = real k"

definition Exp2 :: "real \<Rightarrow> real" where
  "Exp2 x = 2 powr x"

definition int_of_float :: "real \<Rightarrow> nat" where
  "int_of_float f = nat \<lfloor>f\<rfloor>"

definition tableBytes :: "nat \<Rightarrow> nat" where
  "tableBytes n = 3 * int_of_float (Exp2 (float64 (n + 1)))"

definition readGlobalColourTable :: "logicalScreenDescriptor \<Rightarrow> nat \<Rightarrow> nat result" where
  "readGlobalColourTable screenDescriptor idx =
     Ok (idx + tableBytes (GlobalColourTableSize screenDescriptor))"

subsection \<open>Data sub-blocks\<close>

text \<open>
  \<^verbatim>\<open>readDataSubBlocks\<close> loops over length-prefixed runs up to a zero length. The
  bytes it appends to \<^verbatim>\<open>buf\<close> are only counted by a log line of the caller, and
  its error is always \<^verbatim>\<open>nil\<close>; the model returns the index. The slice
  \<^verbatim>\<open>data[idx:idx+sz]\<close> panics when \<^verbatim>\<open>idx+sz\<close> exceeds the capacity; the slice
  \<^verbatim>\<open>data[idx:idx+1]\<close> that is logged for a block of one byte passes the same test.
\<close>

function readDataSubBlocks :: "nat \<Rightarrow> byte list \<Rightarrow> nat \<Rightarrow> nat result" where
  "readDataSubBlocks c data idx =
    (if length data \<le> idx then Panic
     else if unat (data ! idx) = 0 then Ok (idx + 1)
     else if c < idx + 1 + unat (data ! idx) then Panic
     else readDataSubBlocks c data (idx + 1 + unat (data ! idx)))"
  by pat_completeness auto
termination
  by (relation "measure (\<lambda>(c, data, idx). length data - idx)") auto

declare readDataSubBlocks.simps [simp del]

subsection \<open>Extensions\<close>

definition readGraphicControlExtension :: "byte list \<Rightarrow> nat \<Rightarrow> nat result" where
  "readGraphicControlExtension data idx =
    (if length data \<le> idx then Panic
     else if data ! idx \<noteq> extension then Fail NoExtensionIntroducer
     else if length data \<le> idx + 1 then Panic
     else if data ! (idx + 1) \<noteq> 0xf9 then Fail GraphicControlLabelMissing
     else if length data \<le> idx + 2 then Panic
     else if unat (data ! (idx + 2)) \<noteq> 4
       then Fail (UnexpectedBlockSize (unat (data ! (idx + 2))))
     else if length data \<le> idx + 3 + unat (data ! (idx + 2)) then Panic
     else if data ! (idx + 3 + unat (data ! (idx + 2))) \<noteq> 0 then Fail MissingBlockTerminator
     else Ok (idx + 3 + unat (data ! (idx + 2)) + 1))"

text \<open>
  \<^verbatim>\<open>readApplicationExtension\<close> takes the identifier and the authentication code
  with the slice expressions \<^verbatim>\<open>data[idx : idx+8]\<close> and \<^verbatim>\<open>data[idx : idx+3]\<close>, each
  checked against the capacity.
\<close>

definition readApplicationExtension ::
    "nat \<Rightarrow> byte list \<Rightarrow> nat \<Rightarrow> (applicationExtension \<times> nat) result" where
  "readApplicationExtension c data idx =
    (if length data \<le> idx then Panic
     else if data ! idx \<noteq> extension then Fail NoExtensionIntroducer
     else if length data \<le> idx + 1 then Panic
     else if data ! (idx + 1) \<noteq> 0xff then Fail NotApplicationExtension
     else if length data \<le> idx + 2 then Panic
     else if unat (data ! (idx + 2)) \<noteq> 11
       then Fail (UnexpectedBlockSize (unat (data ! (idx + 2))))
     else if c < idx + 3 + 8 then Panic
     else if c < idx + 3 + 8 + 3 then Panic
     else (case readDataSubBlocks c data (idx + 3 + 8 + 3) of
             Panic \<Rightarrow> Panic
           | Fail e \<Rightarrow> Fail (ReadingDataSubBlocks e)
           | Ok next \<Rightarrow>
               Ok (\<lparr>Identifier = take 8 (drop (idx + 3) data),
                    AuthenticationCode = take 3 (drop (idx + 3 + 8) data)\<rparr>, next)))"

text \<open>
  \<^verbatim>\<open>readPlainTextExtension\<close>: after the label the index stands on the size byte and
  \<^verbatim>\<open>idx += 12\<close> moves on from there.
\<close>

definition readPlainTextExtension :: "nat \<Rightarrow> byte list \<Rightarrow> nat \<Rightarrow> nat result" where
  "readPlainTextExtension c data idx =
    (if length data \<le> idx then Panic
     else if data ! idx \<noteq> extension then Fail NoExtensionIntroducer
     else if length data \<le> idx + 1 then Panic
     else if data ! (idx + 1) \<noteq> 0x01 then Fail NotPlainTextExtension
     else if length data \<le> idx + 2 then Panic
     else if data ! (idx + 2) \<noteq> 12 then Fail PlainTextUnexpectedBlockSize
     else (case readDataSubBlocks c data (idx + 2 + 12) of
             Panic \<Rightarrow> Panic
           | Fail e \<Rightarrow> Fail (ReadingDataSubBlocks e)
           | Ok next \<Rightarrow> Ok next))"

subsection \<open>Table-based image\<close>

text \<open>
  \<^verbatim>\<open>readTableBasedImage\<close>: the separator, eight bytes of position and size that are
  skipped, the packed byte, the local colour table when its flag is set, the LZW
  minimum code size, the data sub-blocks. The part after the colour table (the source's
  comment \<^verbatim>\<open>// Image Data.\<close>) is \<open>readImageData\<close>. The clear code computed from the
  code size is only printed.
\<close>

definition readImageData :: "nat \<Rightarrow> byte list \<Rightarrow> nat \<Rightarrow> nat result" where
  "readImageData c data idx =
    (if length data \<le> idx then Panic
     else (case readDataSubBlocks c data (idx + 1) of
             Panic \<Rightarrow> Panic
           | Fail e \<Rightarrow> Fail (ReadingDataSubBlocks e)
           | Ok next \<Rightarrow> Ok next))"

definition readTableBasedImage :: "nat \<Rightarrow> byte list \<Rightarrow> nat \<Rightarrow> nat result" where
  "readTableBasedImage c data idx =
    (if length data \<le> idx then Panic
     else if data ! idx \<noteq> 0x2c then Fail NoImageSeparator
     else
       (let p = idx + 1 + 2 + 2 + 2 + 2 in
        if length data \<le> p then Panic
        else
          (let localColourTableFlag = (data ! p AND 0x80 = 0x80);
               localColourTableSize = unat (data ! p AND 0x07)
           in if localColourTableFlag
              then readImageData c data (p + 1 + tableBytes localColourTableSize)
              else readImageData c data (p + 1))))"

subsection \<open>Blocks\<close>

definition readGraphicRenderingBlock :: "nat \<Rightarrow> byte list \<Rightarrow> nat \<Rightarrow> nat result" where
  "readGraphicRenderingBlock c data idx =
    (case readTableBasedImage c data idx of
       Panic \<Rightarrow> Panic
     | Ok next \<Rightarrow> Ok next
     | Fail _ \<Rightarrow>
        (case readPlainTextExtension c data idx of
           Panic \<Rightarrow> Panic
         | Ok next \<Rightarrow> Ok next
         | Fail _ \<Rightarrow> Fail NotGraphicRenderingBlock))"

text \<open>
  \<^verbatim>\<open>readGraphicBlock\<close>: an optional Graphic Control Extension, then an Application
  Extension (tolerated here by the source) or a Graphic-Rendering Block. When the
  control extension was read and no rendering block follows, the error message is
  built from \<^verbatim>\<open>data[idx]\<close> and \<^verbatim>\<open>data[idx+1]\<close>, which the source indexes without a
  test.
\<close>

definition readGraphicBlock :: "nat \<Rightarrow> byte list \<Rightarrow> nat \<Rightarrow> nat result" where
  "readGraphicBlock c data idx0 =
    (case readGraphicControlExtension data idx0 of
       Panic \<Rightarrow> Panic
     | r \<Rightarrow>
        (let haveGraphicControlExtension = (case r of Ok _ \<Rightarrow> True | _ \<Rightarrow> False);
             idx = (case r of Ok next \<Rightarrow> next | _ \<Rightarrow> idx0)
         in case readApplicationExtension c data idx of
              Panic \<Rightarrow> Panic
            | Ok (ext, next) \<Rightarrow> Ok next
            | Fail _ \<Rightarrow>
               (case readGraphicRenderingBlock c data idx of
                  Panic \<Rightarrow> Panic
                | Ok next \<Rightarrow> Ok next
                | Fail e \<Rightarrow>
                   if haveGraphicControlExtension then
                     (if length data \<le> idx then Panic
                      else if length data \<le> idx + 1 then Panic
                      else Fail (GraphicControlButNoRenderingBlock e
                                   (data ! idx) (data ! (idx + 1))))
                   else Fail (UnableToReadGraphicRenderingBlock e))))"

text \<open>
  \<^verbatim>\<open>readSpecialPurposeBlock\<close>: an Application Extension; the Comment Extension is
  commented out in the source.
\<close>

definition readSpecialPurposeBlock :: "nat \<Rightarrow> byte list \<Rightarrow> nat \<Rightarrow> nat result" where
  "readSpecialPurposeBlock c data idx =
    (case readApplicationExtension c data idx of
       Panic \<Rightarrow> Panic
     | Ok (ext, next) \<Rightarrow> Ok next
     | Fail e \<Rightarrow> Fail (UnableToReadSpecialPurposeBlock e))"

definition readTrailer :: "byte list \<Rightarrow> nat \<Rightarrow> nat result" where
  "readTrailer data idx =
    (if length data \<le> idx then Panic
     else if data ! idx \<noteq> trailer then Fail NotTrailer
     else Ok (idx + 1))"

subsection \<open>The dispatcher\<close>

text \<open>
  One pass through the body of the \<^verbatim>\<open>for\<close> loop of \<^verbatim>\<open>readDataBlocksAndTrailer\<close>
  ends in \<^verbatim>\<open>continue\<close>, in \<^verbatim>\<open>return\<close> or in a panic. The state of the loop is the
  index, the \<^verbatim>\<open>gifstate\<close> behind the pointer \<^verbatim>\<open>gs\<close> and the bytes of \<^verbatim>\<open>data\<close>, which the
  recovery writes to. \<^verbatim>\<open>imageCount\<close> is only printed.

  The copy \<^verbatim>\<open>cd\<close> is made by \<^verbatim>\<open>make([]byte, len(data))\<close>, so its capacity is its
  length. It is a value of its own: writing to it does not write to \<^verbatim>\<open>data\<close>.

  The debug line of the branch without recovery reads \<^verbatim>\<open>data[idx]\<close> and
  \<^verbatim>\<open>data[nextIdx]\<close>; it is reached only with bytes outstanding, where both indices
  are inside the buffer, so it cannot panic and is left out.
\<close>

datatype step =
    Continue nat gifstate "byte list"
  | Return "(nat \<times> gifstate \<times> byte list) result"

definition dataBlockStep :: "cfg \<Rightarrow> nat \<Rightarrow> byte list \<Rightarrow> nat \<Rightarrow> gifstate \<Rightarrow> step" where
  "dataBlockStep conf c data idx gs =
    (case readSpecialPurposeBlock c data idx of
       Panic \<Rightarrow> Return Panic
     | Ok nextIdx \<Rightarrow> Continue nextIdx gs data
     | Fail specialPurposeErr \<Rightarrow>
        (case readGraphicBlock c data idx of
           Panic \<Rightarrow> Return Panic
         | Ok nextIdx \<Rightarrow> Continue nextIdx gs data
         | Fail graphicErr \<Rightarrow>
            (case readTrailer data idx of
               Panic \<Rightarrow> Return Panic
             | Fail trailerErr \<Rightarrow> Return (Fail (UnableToReadDataBlocks idx (length data)))
             | Ok nextIdx \<Rightarrow>
                (let gs1 = gs\<lparr>readTrailerSeen := True,
                              bytesOutstanding :=
                                (if nextIdx < length data then length data - nextIdx else 0)\<rparr>
                 in if bytesOutstanding gs1 > 0 \<and> reprocess conf then
                      (let cd = data[idx := extension]
                       in case readGraphicBlock (length cd) cd idx of
                            Panic \<Rightarrow> Return Panic
                          | Fail _ \<Rightarrow> Return (Ok (nextIdx, gs1, data))
                          | Ok i \<Rightarrow>
                             Continue idx
                               (gs1\<lparr>patches := patches gs1 @
                                   [\<lparr>index = idx, oldValue = trailer, newValue = extension\<rparr>]\<rparr>)
                               (data[idx := extension]))
                    else Return (Ok (nextIdx, gs1, data))))))"

subsection \<open>Facts about the productions\<close>

text \<open>
  The conversions of the colour table size are exact on natural numbers, which also
  gives \<open>tableBytes\<close> an equation that computes.
\<close>

lemma intExp2: "int_of_float (Exp2 (float64 n)) = 2 ^ n"
  by (simp add: int_of_float_def Exp2_def float64_def powr_realpow)

lemma tableBytes_code [code]: "tableBytes n = 3 * 2 ^ (n + 1)"
  unfolding tableBytes_def intExp2 ..

text \<open>
  A production that succeeds has read its last byte inside the buffer and returns an
  index behind the one it started at.
\<close>

lemma readDataSubBlocks_Ok:
  "readDataSubBlocks c data idx = Ok j \<Longrightarrow> idx < j \<and> j \<le> length data \<and> data ! (j - 1) = 0"
proof (induction c data idx rule: readDataSubBlocks.induct)
  case (1 c data idx)
  then show ?case
    by (subst (asm) (2) readDataSubBlocks.simps) (auto split: if_splits simp: unat_eq_0)
qed

lemma readDataSubBlocks_not_Fail: "readDataSubBlocks c data idx \<noteq> Fail e"
proof (induction c data idx rule: readDataSubBlocks.induct)
  case (1 c data idx)
  then show ?case
    by (subst readDataSubBlocks.simps) (auto split: if_splits)
qed

lemma readGraphicControlExtension_Ok:
  "readGraphicControlExtension data idx = Ok j \<Longrightarrow>
     j = idx + 8 \<and> j \<le> length data \<and> data ! idx = extension \<and> data ! (idx + 1) = 0xf9"
  by (auto simp: readGraphicControlExtension_def split: if_splits)

lemma readApplicationExtension_Ok:
  "readApplicationExtension c data idx = Ok (ext, j) \<Longrightarrow>
     idx + 15 \<le> j \<and> j \<le> length data \<and> data ! idx = extension \<and> data ! (idx + 1) = 0xff"
  by (auto simp: readApplicationExtension_def split: if_splits result.splits
           dest!: readDataSubBlocks_Ok)

lemma readPlainTextExtension_Ok:
  "readPlainTextExtension c data idx = Ok j \<Longrightarrow>
     idx + 15 \<le> j \<and> j \<le> length data \<and> data ! idx = extension \<and> data ! (idx + 1) = 0x01"
  by (auto simp: readPlainTextExtension_def split: if_splits result.splits
           dest!: readDataSubBlocks_Ok)

lemma readImageData_Ok:
  "readImageData c data idx = Ok j \<Longrightarrow> idx + 2 \<le> j \<and> j \<le> length data"
  by (auto simp: readImageData_def split: if_splits result.splits dest!: readDataSubBlocks_Ok)

lemma readTableBasedImage_Ok:
  "readTableBasedImage c data idx = Ok j \<Longrightarrow>
     idx + 12 \<le> j \<and> j \<le> length data \<and> data ! idx = 0x2c"
  by (auto simp: readTableBasedImage_def Let_def split: if_splits dest!: readImageData_Ok)

lemma readGraphicRenderingBlock_Ok:
  "readGraphicRenderingBlock c data idx = Ok j \<Longrightarrow>
     idx + 12 \<le> j \<and> j \<le> length data \<and> (data ! idx = 0x2c \<or> data ! idx = extension)"
  by (auto simp: readGraphicRenderingBlock_def split: result.splits
           dest!: readTableBasedImage_Ok readPlainTextExtension_Ok)

lemma readGraphicBlock_Ok:
  "readGraphicBlock c data idx = Ok j \<Longrightarrow>
     idx + 12 \<le> j \<and> j \<le> length data \<and> (data ! idx = 0x2c \<or> data ! idx = extension)"
  by (auto simp: readGraphicBlock_def Let_def split: result.splits prod.splits if_splits
           dest!: readGraphicControlExtension_Ok readApplicationExtension_Ok
                  readGraphicRenderingBlock_Ok)

lemma readSpecialPurposeBlock_Ok:
  "readSpecialPurposeBlock c data idx = Ok j \<Longrightarrow>
     idx + 15 \<le> j \<and> j \<le> length data \<and> data ! idx = extension \<and> data ! (idx + 1) = 0xff"
  by (auto simp: readSpecialPurposeBlock_def split: result.splits prod.splits
           dest!: readApplicationExtension_Ok)

lemma readTrailer_Ok:
  "readTrailer data idx = Ok j \<Longrightarrow> j = idx + 1 \<and> idx < length data \<and> data ! idx = trailer"
  by (auto simp: readTrailer_def split: if_splits)

text \<open>
  A pass that ends in \<^verbatim>\<open>continue\<close> either moved the index forward over a block, or
  stayed on a trailer byte that it rewrote to the extension introducer.
\<close>

lemma dataBlockStep_Continue:
  assumes "dataBlockStep conf c data idx gs = Continue idx' gs' data'"
  shows "(data' = data \<and> gs' = gs \<and> idx + 12 \<le> idx' \<and> idx' \<le> length data \<and> data ! idx \<noteq> trailer)
       \<or> (idx' = idx \<and> data' = data[idx := extension] \<and> data ! idx = trailer \<and> idx + 1 < length data
            \<and> reprocess conf)"
  using assms
  by (auto simp: dataBlockStep_def Let_def trailer_def extension_def
           split: result.splits if_splits
           dest!: readSpecialPurposeBlock_Ok readGraphicBlock_Ok readTrailer_Ok)

text \<open>
  The loop of \<^verbatim>\<open>readDataBlocksAndTrailer\<close>. It terminates: the pair of the bytes left
  and of whether the current byte is a trailer decreases lexicographically.
\<close>

function readDataBlocksAndTrailer ::
    "cfg \<Rightarrow> nat \<Rightarrow> byte list \<Rightarrow> nat \<Rightarrow> gifstate \<Rightarrow> (nat \<times> gifstate \<times> byte list) result" where
  "readDataBlocksAndTrailer conf c data idx gs =
    (case dataBlockStep conf c data idx gs of
       Continue idx' gs' data' \<Rightarrow> readDataBlocksAndTrailer conf c data' idx' gs'
     | Return r \<Rightarrow> r)"
  by pat_completeness auto
termination
proof (relation "measures [\<lambda>(conf, c, data, idx, gs). length data - idx,
                           \<lambda>(conf, c, data, idx, gs). if data ! idx = trailer then 1 else 0]")
  show "wf (measures [\<lambda>(conf, c, data, idx, gs). length data - idx,
                      \<lambda>(conf, c, data, idx, gs). if data ! idx = trailer then 1 else 0])"
    by simp
next
  fix conf :: cfg and c data idx gs idx' gs' data'
  assume "dataBlockStep conf c data idx gs = Continue idx' gs' data'"
  from dataBlockStep_Continue[OF this]
  show "((conf, c, data', idx', gs'), (conf, c, data, idx, gs))
        \<in> measures [\<lambda>(conf, c, data, idx, gs). length data - idx,
                     \<lambda>(conf, c, data, idx, gs). if data ! idx = trailer then 1 else 0]"
    by (auto simp: trailer_def extension_def)
qed

declare readDataBlocksAndTrailer.simps [simp del]

text \<open>
  The number of passes through the body of the loop, the last one included. It is not
  a value of the program; it measures the loop.
\<close>

function iterations :: "cfg \<Rightarrow> nat \<Rightarrow> byte list \<Rightarrow> nat \<Rightarrow> gifstate \<Rightarrow> nat" where
  "iterations conf c data idx gs =
    (case dataBlockStep conf c data idx gs of
       Continue idx' gs' data' \<Rightarrow> 1 + iterations conf c data' idx' gs'
     | Return r \<Rightarrow> 1)"
  by pat_completeness auto
termination
proof (relation "measures [\<lambda>(conf, c, data, idx, gs). length data - idx,
                           \<lambda>(conf, c, data, idx, gs). if data ! idx = trailer then 1 else 0]")
  show "wf (measures [\<lambda>(conf, c, data, idx, gs). length data - idx,
                      \<lambda>(conf, c, data, idx, gs). if data ! idx = trailer then 1 else 0])"
    by simp
next
  fix conf :: cfg and c data idx gs idx' gs' data'
  assume "dataBlockStep conf c data idx gs = Continue idx' gs' data'"
  from dataBlockStep_Continue[OF this]
  show "((conf, c, data', idx', gs'), (conf, c, data, idx, gs))
        \<in> measures [\<lambda>(conf, c, data, idx, gs). length data - idx,
                     \<lambda>(conf, c, data, idx, gs). if data ! idx = trailer then 1 else 0]"
    by (auto simp: trailer_def extension_def)
qed

declare iterations.simps [simp del]

subsection \<open>Writing the patched file, and \<^verbatim>\<open>decodeGIF\<close>\<close>

text \<open>
  The loop over \<^verbatim>\<open>gs.patches\<close> at the end of \<^verbatim>\<open>decodeGIF\<close>: a patch is applied
  when the byte at its index still has the old value, and skipped (with a log line)
  otherwise.
\<close>

fun applyPatches :: "byte list \<Rightarrow> patch list \<Rightarrow> byte list result" where
  "applyPatches data [] = Ok data"
| "applyPatches data (p # ps) =
    (if length data \<le> index p then Panic
     else if data ! index p = oldValue p then applyPatches (data[index p := newValue p]) ps
     else applyPatches data ps)"

text \<open>
  \<^verbatim>\<open>decodeGIF\<close> from the point where the file has been read: \<open>data\<close> is what
  \<^verbatim>\<open>os.ReadFile\<close> returned and \<open>c\<close> its capacity. Its result is the error, or the
  \<^verbatim>\<open>gifstate\<close> with the bytes given to \<^verbatim>\<open>os.WriteFile\<close> when an output file is
  configured. The global \<^verbatim>\<open>conf\<close> is a parameter.
\<close>

definition decodeGIF ::
    "cfg \<Rightarrow> nat \<Rightarrow> byte list \<Rightarrow> gifstate \<Rightarrow> (gifstate \<times> byte list option) result" where
  "decodeGIF conf c data gs =
    (case readHeader data 0 of
       Panic \<Rightarrow> Panic
     | Fail e \<Rightarrow> Fail (ReadHeaderFailed e)
     | Ok (hdr, idx1) \<Rightarrow>
        (case readLogicalScreenDescriptor data idx1 of
           Panic \<Rightarrow> Panic
         | Fail e \<Rightarrow> Fail (ReadingLogicalScreenDescriptor e)
         | Ok (screenDescriptor, idx2) \<Rightarrow>
            (case (if HasGlobalColourTable screenDescriptor
                   then readGlobalColourTable screenDescriptor idx2 else Ok idx2) of
               Panic \<Rightarrow> Panic
             | Fail e \<Rightarrow> Fail (ReadingGlobalColourTable e)
             | Ok idx3 \<Rightarrow>
                (case readDataBlocksAndTrailer conf c data idx3 (gs\<lparr>validSignature := True\<rparr>) of
                   Panic \<Rightarrow> Panic
                 | Fail e \<Rightarrow> Fail (ReadingDataBlocks e)
                 | Ok (idx, gs', data') \<Rightarrow>
                    if idx \<noteq> length data' then Fail (FailedToParseEntireImage idx (length data'))
                    else if write' conf \<and> length (outFile conf) > 0 then
                      (case applyPatches data' (patches gs') of
                         Panic \<Rightarrow> Panic
                       | Fail e \<Rightarrow> Fail e
                       | Ok out \<Rightarrow> Ok (gs', Some out))
                    else Ok (gs', None)))))"

section \<open>Colour table length\<close>

text \<open>
  The three low bits of the packed byte are a number from 0 to 7.
\<close>

lemma table_exponent_le_7: "unat ((b :: byte) AND 0x07) \<le> 7"
  using word_and_le1[of b 7] by (simp add: word_le_nat_alt)

lemma readLogicalScreenDescriptor_size:
  "readLogicalScreenDescriptor data idx = Ok (sd, j) \<Longrightarrow> GlobalColourTableSize sd \<le> 7"
  by (auto simp: readLogicalScreenDescriptor_def Let_def table_exponent_le_7 split: if_splits)

lemma readTableBasedImage_unfold:
  "readTableBasedImage c data idx =
    (if length data \<le> idx then Panic
     else if data ! idx \<noteq> 0x2c then Fail NoImageSeparator
     else if length data \<le> idx + 9 then Panic
     else if data ! (idx + 9) AND 0x80 = 0x80
       then readImageData c data (idx + 10 + tableBytes (unat (data ! (idx + 9) AND 0x07)))
     else readImageData c data (idx + 10))"
proof -
  have *: "idx + 1 + 2 + 2 + 2 + 2 = idx + 9" "idx + 9 + 1 = idx + 10"
    by simp_all
  show ?thesis
    unfolding readTableBasedImage_def Let_def * by (rule refl)
qed

lemma readLogicalScreenDescriptor_unfold:
  "readLogicalScreenDescriptor data idx =
    (if length data \<le> idx + 4 then Panic
     else if length data \<le> idx + 5 then Panic
     else if \<not> (data ! (idx + 4) AND 0x80 = 0x80) \<and> data ! (idx + 5) \<noteq> 0
       then Fail NoGlobalTableButBackgroundSet
     else if length data \<le> idx + 6 then Panic
     else Ok (\<lparr>Width = 0, Height = 0,
               HasGlobalColourTable = (data ! (idx + 4) AND 0x80 = 0x80),
               ColourResolution = unat (drop_bit 4 (data ! (idx + 4) AND 0x70)) + 1,
               GlobalColourTableSorted = (data ! (idx + 4) AND 0x08 = 0x08),
               GlobalColourTableSize = unat (data ! (idx + 4) AND 0x07),
               BackgroundColourIndex = unat (data ! (idx + 5)),
               PixelAspectRatio = unat (data ! (idx + 6))\<rparr>, idx + 7))"
proof -
  have *: "idx + 2 + 2 = idx + 4" "idx + 4 + 1 = idx + 5" "idx + 4 + 2 = idx + 6"
    "idx + 4 + 3 = idx + 7"
    by simp_all
  show ?thesis
    unfolding readLogicalScreenDescriptor_def Let_def * by (rule refl)
qed

text \<open>
  C7. For every size exponent \<open>e\<close> in \<open>[0, 7]\<close> the number of bytes by which
  \<^verbatim>\<open>readGlobalColourTable\<close> and \<^verbatim>\<open>readTableBasedImage\<close> move the index over a
  colour table is exactly \<open>3 * 2 ^ (e + 1)\<close>: 6 for exponent 0, 768 for exponent 7.
  The conversions through \<^verbatim>\<open>float64\<close> lose nothing.
\<close>

theorem colour_table_skip:
  assumes "e \<le> 7"
  shows "(GlobalColourTableSize sd = e \<longrightarrow>
            readGlobalColourTable sd idx = Ok (idx + 3 * 2 ^ (e + 1)))
       \<and> (i + 9 < length data \<and> data ! i = 0x2c \<and> data ! (i + 9) AND 0x80 = 0x80
            \<and> unat (data ! (i + 9) AND 0x07) = e \<longrightarrow>
            readTableBasedImage c data i = readImageData c data (i + 10 + 3 * 2 ^ (e + 1)))
       \<and> tableBytes e = 3 * 2 ^ (e + 1)
       \<and> tableBytes 0 = 6 \<and> tableBytes 7 = 768
       \<and> 6 \<le> tableBytes e \<and> tableBytes e \<le> 768"
proof -
  have le: "(2::nat) ^ (e + 1) \<le> 2 ^ 8"
    using assms by (intro power_increasing) auto
  have ge: "(2::nat) ^ 1 \<le> 2 ^ (e + 1)"
    by (intro power_increasing) auto
  have "6 \<le> tableBytes e" "tableBytes e \<le> 768"
    using le ge by (simp_all add: tableBytes_code)
  moreover have "tableBytes 0 = 6" "tableBytes 7 = 768"
    by (simp_all add: tableBytes_code)
  moreover have "readTableBasedImage c data i = readImageData c data (i + 10 + 3 * 2 ^ (e + 1))"
    if "i + 9 < length data" "data ! i = 0x2c" "data ! (i + 9) AND 0x80 = 0x80"
       "unat (data ! (i + 9) AND 0x07) = e"
    using that by (subst readTableBasedImage_unfold) (simp add: tableBytes_code)
  ultimately show ?thesis
    by (simp add: readGlobalColourTable_def tableBytes_code)
qed

theorem colour_table_skip_witness:
  "readGlobalColourTable
     \<lparr>Width = 0, Height = 0, HasGlobalColourTable = True, ColourResolution = 8,
      GlobalColourTableSorted = False, GlobalColourTableSize = 7,
      BackgroundColourIndex = 0, PixelAspectRatio = 0\<rparr> 13 = Ok 781
   \<and> readTableBasedImage 10 [0x2c, 0, 0, 0, 0, 0, 0, 0, 0, 0x87] 0
       = readImageData 10 [0x2c, 0, 0, 0, 0, 0, 0, 0, 0, 0x87] 778"
  using colour_table_skip [where e = 7 and idx = 13 and i = 0 and c = 10
     and data = "[0x2c, 0, 0, 0, 0, 0, 0, 0, 0, 0x87]"
     and sd = "\<lparr>Width = 0, Height = 0, HasGlobalColourTable = True, ColourResolution = 8,
      GlobalColourTableSorted = False, GlobalColourTableSize = 7,
      BackgroundColourIndex = 0, PixelAspectRatio = 0\<rparr>"]
  by simp

section \<open>Descriptor invariant\<close>

text \<open>
  C6. A buffer with a valid header whose packed byte has the global colour table flag
  clear and whose background colour index byte is not zero makes \<^verbatim>\<open>decodeGIF\<close>
  fail with the descriptor's error, whatever bytes follow, whatever the configuration.
\<close>

theorem background_without_table_fails:
  assumes "readHeader data 0 = Ok (h, i)"
    and "i + 5 < length data"
    and "data ! (i + 4) AND 0x80 \<noteq> 0x80"
    and "data ! (i + 5) \<noteq> 0"
  shows "decodeGIF conf c data gs = Fail (ReadingLogicalScreenDescriptor NoGlobalTableButBackgroundSet)"
  using assms by (simp add: decodeGIF_def readLogicalScreenDescriptor_unfold)

theorem background_without_table_fails_witness:
  "decodeGIF \<lparr>logLevel = 2, reprocess = True, outFile = ''out.gif'', write' = True\<rparr> 512
     [0x47, 0x49, 0x46, 0x38, 0x39, 0x61, 1, 0, 1, 0, 0x07, 0x05, 0, 0x3b]
     \<lparr>validSignature = False, readTrailerSeen = False, bytesOutstanding = 0, patches = []\<rparr>
   = Fail (ReadingLogicalScreenDescriptor NoGlobalTableButBackgroundSet)"
proof -
  have h: "readHeader [0x47, 0x49, 0x46, 0x38, 0x39, 0x61, 1, 0, 1, 0, 0x07, 0x05, 0, 0x3b] 0
        = Ok (\<lparr>Signature = ''GIF'', Version = ''89a''\<rparr>, 6)"
    by (simp add: readHeader_def)
  show ?thesis
    by (rule background_without_table_fails [OF h]) simp_all
qed

section \<open>Running the dispatcher\<close>

text \<open>
  \<open>passes conf c n\<close> runs the body of the loop \<open>n\<close> times from a state, or up to the
  pass that returns. \<open>passes conf c n s = Continue idx gs data\<close> says that the loop,
  started in \<open>s\<close>, stands at \<open>idx\<close> after \<open>n\<close> passes.
\<close>

fun passes :: "cfg \<Rightarrow> nat \<Rightarrow> nat \<Rightarrow> nat \<times> gifstate \<times> byte list \<Rightarrow> step" where
  "passes conf c 0 (idx, gs, data) = Continue idx gs data"
| "passes conf c (Suc n) (idx, gs, data) =
    (case dataBlockStep conf c data idx gs of
       Continue idx' gs' data' \<Rightarrow> passes conf c n (idx', gs', data')
     | Return r \<Rightarrow> Return r)"

text \<open>
  The index at which \<^verbatim>\<open>decodeGIF\<close> enters the loop: behind the header, the logical
  screen descriptor and the global colour table.
\<close>

definition dataStart :: "byte list \<Rightarrow> nat result" where
  "dataStart data =
    (case readHeader data 0 of
       Panic \<Rightarrow> Panic
     | Fail e \<Rightarrow> Fail (ReadHeaderFailed e)
     | Ok (hdr, idx1) \<Rightarrow>
        (case readLogicalScreenDescriptor data idx1 of
           Panic \<Rightarrow> Panic
         | Fail e \<Rightarrow> Fail (ReadingLogicalScreenDescriptor e)
         | Ok (screenDescriptor, idx2) \<Rightarrow>
            (case (if HasGlobalColourTable screenDescriptor
                   then readGlobalColourTable screenDescriptor idx2 else Ok idx2) of
               Panic \<Rightarrow> Panic
             | Fail e \<Rightarrow> Fail (ReadingGlobalColourTable e)
             | Ok idx3 \<Rightarrow> Ok idx3)))"

lemma decodeGIF_dataStart:
  "decodeGIF conf c data gs =
    (case dataStart data of
       Panic \<Rightarrow> Panic
     | Fail e \<Rightarrow> Fail e
     | Ok idx3 \<Rightarrow>
        (case readDataBlocksAndTrailer conf c data idx3 (gs\<lparr>validSignature := True\<rparr>) of
           Panic \<Rightarrow> Panic
         | Fail e \<Rightarrow> Fail (ReadingDataBlocks e)
         | Ok (idx, gs', data') \<Rightarrow>
            if idx \<noteq> length data' then Fail (FailedToParseEntireImage idx (length data'))
            else if write' conf \<and> length (outFile conf) > 0 then
              (case applyPatches data' (patches gs') of
                 Panic \<Rightarrow> Panic
               | Fail e \<Rightarrow> Fail e
               | Ok out \<Rightarrow> Ok (gs', Some out))
            else Ok (gs', None)))"
  by (simp add: decodeGIF_def dataStart_def split: result.splits prod.splits)

lemma dataStart_Ok: "dataStart data = Ok idx3 \<Longrightarrow> 13 \<le> idx3 \<and> 13 \<le> length data"
  by (auto simp: dataStart_def readHeader_def readLogicalScreenDescriptor_unfold
        readGlobalColourTable_def
        split: result.splits prod.splits if_splits)

lemma loop_passes:
  "passes conf c n (idx0, gs0, data0) = Continue idx gs data \<Longrightarrow>
     readDataBlocksAndTrailer conf c data0 idx0 gs0 = readDataBlocksAndTrailer conf c data idx gs"
proof (induction n arbitrary: idx0 gs0 data0)
  case 0
  then show ?case by simp
next
  case (Suc n)
  then show ?case
    by (subst readDataBlocksAndTrailer.simps) (auto split: step.splits)
qed

lemma loop_Return:
  "dataBlockStep conf c data idx gs = Return r \<Longrightarrow>
     readDataBlocksAndTrailer conf c data idx gs = r"
  by (subst readDataBlocksAndTrailer.simps) simp

lemma loop_Continue:
  "dataBlockStep conf c data idx gs = Continue idx' gs' data' \<Longrightarrow>
     readDataBlocksAndTrailer conf c data idx gs = readDataBlocksAndTrailer conf c data' idx' gs'"
  by (subst readDataBlocksAndTrailer.simps) simp

subsection \<open>A pass that stands on a trailer byte\<close>

lemma special_at_other:
  "idx < length data \<Longrightarrow> data ! idx \<noteq> extension \<Longrightarrow>
     readSpecialPurposeBlock c data idx = Fail (UnableToReadSpecialPurposeBlock NoExtensionIntroducer)"
  by (simp add: readSpecialPurposeBlock_def readApplicationExtension_def)

lemma graphic_at_other:
  "idx < length data \<Longrightarrow> data ! idx \<noteq> extension \<Longrightarrow> data ! idx \<noteq> 0x2c \<Longrightarrow>
     readGraphicBlock c data idx = Fail (UnableToReadGraphicRenderingBlock NotGraphicRenderingBlock)"
  by (simp add: readGraphicBlock_def readGraphicControlExtension_def readApplicationExtension_def
        readGraphicRenderingBlock_def readTableBasedImage_def readPlainTextExtension_def)

lemma step_at_trailer:
  assumes "idx < length data" "data ! idx = trailer"
  shows "dataBlockStep conf c data idx gs =
    (if idx + 1 < length data \<and> reprocess conf then
       (case readGraphicBlock (length data) (data[idx := extension]) idx of
          Panic \<Rightarrow> Return Panic
        | Fail _ \<Rightarrow> Return (Ok (idx + 1,
             gs\<lparr>readTrailerSeen := True, bytesOutstanding := length data - (idx + 1)\<rparr>, data))
        | Ok i \<Rightarrow> Continue idx
             (gs\<lparr>readTrailerSeen := True, bytesOutstanding := length data - (idx + 1),
                 patches := patches gs @
                   [\<lparr>index = idx, oldValue = trailer, newValue = extension\<rparr>]\<rparr>)
             (data[idx := extension]))
     else Return (Ok (idx + 1,
            gs\<lparr>readTrailerSeen := True,
               bytesOutstanding := (if idx + 1 < length data then length data - (idx + 1) else 0)\<rparr>,
            data)))"
proof -
  have ne: "data ! idx \<noteq> extension" "data ! idx \<noteq> 0x2c"
    using assms by (simp_all add: trailer_def extension_def)
  show ?thesis
    using assms
    by (simp add: dataBlockStep_def special_at_other[OF assms(1) ne(1)]
          graphic_at_other[OF assms(1) ne] readTrailer_def Let_def
          split: result.splits)
qed

subsection \<open>The capacity does not matter\<close>

text \<open>
  A slice expression that passes the capacity check but reaches behind the length is
  followed by an index expression that panics, so every capacity that is at least the
  length gives the same results.
\<close>

lemma readDataSubBlocks_cap:
  "length data \<le> c \<Longrightarrow> readDataSubBlocks c data idx = readDataSubBlocks (length data) data idx"
proof (induction c data idx rule: readDataSubBlocks.induct)
  case (1 c data idx)
  show ?case
  proof (cases "length data \<le> idx \<or> unat (data ! idx) = 0")
    case True
    then show ?thesis by (auto simp: readDataSubBlocks.simps[of _ data idx])
  next
    case False
    show ?thesis
    proof (cases "length data < idx + 1 + unat (data ! idx)")
      case True
      then have "readDataSubBlocks (length data) data idx = Panic"
        using False by (simp add: readDataSubBlocks.simps[of _ data idx])
      moreover have "readDataSubBlocks c data idx = Panic"
        using False True
        by (simp add: readDataSubBlocks.simps[of _ data idx]
              readDataSubBlocks.simps[of _ data "Suc (idx + unat (data ! idx))"])
      ultimately show ?thesis by simp
    next
      case F2: False
      then show ?thesis using False 1
        by (simp add: readDataSubBlocks.simps[of _ data idx])
    qed
  qed
qed

lemma readDataSubBlocks_beyond: "length data \<le> idx \<Longrightarrow> readDataSubBlocks c data idx = Panic"
  by (simp add: readDataSubBlocks.simps)

lemma readApplicationExtension_cap:
  assumes "length data \<le> c"
  shows "readApplicationExtension c data idx = readApplicationExtension (length data) data idx"
proof (cases "length data < idx + 3 + 8 + 3")
  case True
  then have "readDataSubBlocks c data (idx + 3 + 8 + 3) = Panic"
    by (intro readDataSubBlocks_beyond) simp
  with True show ?thesis
    by (simp add: readApplicationExtension_def)
next
  case False
  with assms show ?thesis
    by (simp add: readApplicationExtension_def readDataSubBlocks_cap[OF assms])
qed

lemma readPlainTextExtension_cap:
  assumes "length data \<le> c"
  shows "readPlainTextExtension c data idx = readPlainTextExtension (length data) data idx"
  by (simp add: readPlainTextExtension_def readDataSubBlocks_cap[OF assms])

lemma readImageData_cap:
  assumes "length data \<le> c"
  shows "readImageData c data idx = readImageData (length data) data idx"
  by (simp add: readImageData_def readDataSubBlocks_cap[OF assms])

lemma readTableBasedImage_cap:
  assumes "length data \<le> c"
  shows "readTableBasedImage c data idx = readTableBasedImage (length data) data idx"
  unfolding readTableBasedImage_unfold readImageData_cap[OF assms]
  by (rule refl)

lemma readGraphicRenderingBlock_cap:
  assumes "length data \<le> c"
  shows "readGraphicRenderingBlock c data idx = readGraphicRenderingBlock (length data) data idx"
  unfolding readGraphicRenderingBlock_def readTableBasedImage_cap[OF assms]
    readPlainTextExtension_cap[OF assms]
  by (rule refl)

lemma readGraphicBlock_cap:
  assumes "length data \<le> c"
  shows "readGraphicBlock c data idx = readGraphicBlock (length data) data idx"
  unfolding readGraphicBlock_def Let_def readGraphicRenderingBlock_cap[OF assms]
    readApplicationExtension_cap[OF assms]
  by (rule refl)


text \<open>
  Where a Graphic Block is read, the Special-Purpose Block production, which the loop
  tries first, reads the same Application Extension or fails.
\<close>

lemma special_where_graphic:
  assumes "readGraphicBlock c data idx = Ok i"
  shows "readSpecialPurposeBlock c data idx = Ok i
       \<or> (\<exists>e. readSpecialPurposeBlock c data idx = Fail e)"
proof (cases "readGraphicControlExtension data idx")
  case (Ok j)
  from readGraphicControlExtension_Ok[OF this]
  have "idx + 1 < length data" "data ! idx = extension" "data ! (idx + 1) = 0xf9"
    by simp_all
  then show ?thesis
    by (simp add: readSpecialPurposeBlock_def readApplicationExtension_def)
next
  case (Fail e)
  with assms show ?thesis
    by (auto simp: readGraphicBlock_def readSpecialPurposeBlock_def Let_def
             split: result.splits prod.splits)
next
  case Panic
  with assms show ?thesis by (simp add: readGraphicBlock_def)
qed

lemma step_where_graphic:
  assumes "readGraphicBlock c data idx = Ok i"
  shows "dataBlockStep conf c data idx gs = Continue i gs data"
  using special_where_graphic[OF assms] assms
  by (auto simp: dataBlockStep_def)

lemma step_where_special:
  assumes "readSpecialPurposeBlock c data idx = Ok i"
  shows "dataBlockStep conf c data idx gs = Continue i gs data"
  using assms by (simp add: dataBlockStep_def)

section \<open>A trailer before the end of the buffer\<close>

text \<open>
  C2 (as amended). When the loop stands on a trailer byte that is not the last byte of
  the buffer, and recovery is switched off or the speculative Graphic Block fails with
  an error, \<^verbatim>\<open>readDataBlocksAndTrailer\<close> returns without error, with the index
  behind the trailer and \<^verbatim>\<open>bytesOutstanding > 0\<close>. \<^verbatim>\<open>decodeGIF\<close> then compares the
  index with the length of the buffer and returns the error "failed to parse entire
  image": the parse as a whole reports a hard error.
\<close>

theorem premature_trailer_is_length_error:
  assumes "dataStart data0 = Ok idx3"
    and "passes conf c n (idx3, gs0\<lparr>validSignature := True\<rparr>, data0) = Continue idx gs data"
    and "idx + 1 < length data"
    and "data ! idx = trailer"
    and "\<not> reprocess conf
         \<or> (\<exists>e. readGraphicBlock (length data) (data[idx := extension]) idx = Fail e)"
  shows "readDataBlocksAndTrailer conf c data0 idx3 (gs0\<lparr>validSignature := True\<rparr>)
           = Ok (idx + 1,
                 gs\<lparr>readTrailerSeen := True, bytesOutstanding := length data - (idx + 1)\<rparr>,
                 data)
       \<and> 0 < length data - (idx + 1)
       \<and> decodeGIF conf c data0 gs0 = Fail (FailedToParseEntireImage (idx + 1) (length data))"
proof -
  have "dataBlockStep conf c data idx gs
          = Return (Ok (idx + 1,
              gs\<lparr>readTrailerSeen := True, bytesOutstanding := length data - (idx + 1)\<rparr>, data))"
    using assms(3-5) by (subst step_at_trailer) auto
  then have "readDataBlocksAndTrailer conf c data idx gs
          = Ok (idx + 1,
              gs\<lparr>readTrailerSeen := True, bytesOutstanding := length data - (idx + 1)\<rparr>, data)"
    by (rule loop_Return)
  with loop_passes[OF assms(2)]
  have loop: "readDataBlocksAndTrailer conf c data0 idx3 (gs0\<lparr>validSignature := True\<rparr>)
          = Ok (idx + 1,
              gs\<lparr>readTrailerSeen := True, bytesOutstanding := length data - (idx + 1)\<rparr>, data)"
    by simp
  moreover have "decodeGIF conf c data0 gs0
          = Fail (FailedToParseEntireImage (idx + 1) (length data))"
    using assms(1,3) by (simp add: decodeGIF_dataStart loop)
  ultimately show ?thesis
    using assms(3) by simp
qed

theorem premature_trailer_is_length_error_witness:
  "readDataBlocksAndTrailer
     \<lparr>logLevel = 2, reprocess = True, outFile = '''', write' = False\<rparr> 15
     [0x47, 0x49, 0x46, 0x38, 0x39, 0x61, 0, 0, 0, 0, 0, 0, 0, 0x3b, 0] 13
     \<lparr>validSignature = True, readTrailerSeen = False, bytesOutstanding = 0, patches = []\<rparr>
   = Ok (14,
         \<lparr>validSignature = True, readTrailerSeen = True, bytesOutstanding = 1, patches = []\<rparr>,
         [0x47, 0x49, 0x46, 0x38, 0x39, 0x61, 0, 0, 0, 0, 0, 0, 0, 0x3b, 0])
   \<and> decodeGIF \<lparr>logLevel = 2, reprocess = True, outFile = '''', write' = False\<rparr> 15
       [0x47, 0x49, 0x46, 0x38, 0x39, 0x61, 0, 0, 0, 0, 0, 0, 0, 0x3b, 0]
       \<lparr>validSignature = False, readTrailerSeen = False, bytesOutstanding = 0, patches = []\<rparr>
     = Fail (FailedToParseEntireImage 14 15)"
proof -
  let ?d = "[0x47, 0x49, 0x46, 0x38, 0x39, 0x61, 0, 0, 0, 0, 0, 0, 0, 0x3b, 0] :: byte list"
  let ?conf = "\<lparr>logLevel = 2, reprocess = True, outFile = '''', write' = False\<rparr>"
  let ?gs0 = "\<lparr>validSignature = False, readTrailerSeen = False, bytesOutstanding = 0,
               patches = []\<rparr>"
  have 1: "dataStart ?d = Ok 13"
    by (simp add: dataStart_def readHeader_def readLogicalScreenDescriptor_unfold)
  have 2: "passes ?conf 15 0 (13, ?gs0\<lparr>validSignature := True\<rparr>, ?d)
             = Continue 13 (?gs0\<lparr>validSignature := True\<rparr>) ?d"
    by simp
  have 3: "13 + 1 < length ?d" by simp
  have 4: "?d ! 13 = trailer" by (simp add: trailer_def)
  have "readGraphicBlock (length ?d) (?d[13 := extension]) 13
          = Fail (UnableToReadGraphicRenderingBlock NotGraphicRenderingBlock)"
    by (simp add: readGraphicBlock_def readGraphicControlExtension_def
          readApplicationExtension_def readGraphicRenderingBlock_def
          readTableBasedImage_def readPlainTextExtension_def extension_def)
  then have 5: "\<not> reprocess ?conf
         \<or> (\<exists>e. readGraphicBlock (length ?d) (?d[13 := extension]) 13 = Fail e)"
    by blast
  show ?thesis
    using premature_trailer_is_length_error [OF 1 2 3 4 5] by simp
qed

theorem premature_trailer_counterexample:
  "decodeGIF \<lparr>logLevel = 2, reprocess = False, outFile = '''', write' = False\<rparr> 15
     [0x47, 0x49, 0x46, 0x38, 0x39, 0x61, 0, 0, 0, 0, 0, 0, 0, 0x3b, 0]
     \<lparr>validSignature = False, readTrailerSeen = False, bytesOutstanding = 0, patches = []\<rparr>
   = Fail (FailedToParseEntireImage 14 15)"
  by code_simp

section \<open>The recovery of a forged trailer\<close>

text \<open>
  C5. A pass of the loop in which the speculative Graphic Block is not read leaves the
  buffer and the ledger as they were: a pass that continues changes neither the bytes
  nor the state, a pass that returns returns the bytes it was given, the same patches
  and the count of outstanding bytes recorded before the attempt. The copy \<^verbatim>\<open>cd\<close> is
  the only thing the attempt wrote to, and the result does not contain it.
\<close>

theorem failed_recovery_frame:
  assumes "\<forall>i. readGraphicBlock (length data) (data[idx := extension]) idx \<noteq> Ok i"
  shows "(\<forall>idx' gs' data'. dataBlockStep conf c data idx gs = Continue idx' gs' data'
            \<longrightarrow> data' = data \<and> gs' = gs)
       \<and> (\<forall>j gs' data'. dataBlockStep conf c data idx gs = Return (Ok (j, gs', data'))
            \<longrightarrow> data' = data \<and> patches gs' = patches gs
               \<and> bytesOutstanding gs' = length data - j)
       \<and> (idx + 1 < length data \<and> data ! idx = trailer \<and> reprocess conf
            \<longrightarrow> dataBlockStep conf c data idx gs = Return Panic
               \<or> dataBlockStep conf c data idx gs
                    = Return (Ok (idx + 1,
                        gs\<lparr>readTrailerSeen := True,
                           bytesOutstanding := length data - (idx + 1)\<rparr>, data)))"
proof -
  have A: "data' = data \<and> gs' = gs"
    if "dataBlockStep conf c data idx gs = Continue idx' gs' data'" for idx' gs' data'
    using that assms
    by (auto simp: dataBlockStep_def Let_def split: result.splits if_splits)
  have B: "data' = data \<and> patches gs' = patches gs \<and> bytesOutstanding gs' = length data - j"
    if "dataBlockStep conf c data idx gs = Return (Ok (j, gs', data'))" for j gs' data'
    using that
    by (auto simp: dataBlockStep_def Let_def split: result.splits if_splits
             dest!: readTrailer_Ok)
  have C: "dataBlockStep conf c data idx gs = Return Panic
     \<or> dataBlockStep conf c data idx gs
          = Return (Ok (idx + 1,
              gs\<lparr>readTrailerSeen := True, bytesOutstanding := length data - (idx + 1)\<rparr>, data))"
    if "idx + 1 < length data \<and> data ! idx = trailer \<and> reprocess conf"
    using that assms by (subst (1 2) step_at_trailer) (auto split: result.splits)
  from A B C show ?thesis by blast
qed

theorem failed_recovery_frame_witness:
  "dataBlockStep \<lparr>logLevel = 2, reprocess = True, outFile = '''', write' = False\<rparr> 15
     [0x47, 0x49, 0x46, 0x38, 0x39, 0x61, 0, 0, 0, 0, 0, 0, 0, 0x3b, 0] 13
     \<lparr>validSignature = True, readTrailerSeen = False, bytesOutstanding = 0, patches = []\<rparr>
   = Return (Ok (14,
       \<lparr>validSignature = True, readTrailerSeen = True, bytesOutstanding = 1, patches = []\<rparr>,
       [0x47, 0x49, 0x46, 0x38, 0x39, 0x61, 0, 0, 0, 0, 0, 0, 0, 0x3b, 0]))"
proof -
  let ?d = "[0x47, 0x49, 0x46, 0x38, 0x39, 0x61, 0, 0, 0, 0, 0, 0, 0, 0x3b, 0] :: byte list"
  let ?conf = "\<lparr>logLevel = 2, reprocess = True, outFile = '''', write' = False\<rparr>"
  let ?gs = "\<lparr>validSignature = True, readTrailerSeen = False, bytesOutstanding = 0,
              patches = []\<rparr>"
  have "readGraphicBlock (length ?d) (?d[13 := extension]) 13
          = Fail (UnableToReadGraphicRenderingBlock NotGraphicRenderingBlock)"
    by (simp add: readGraphicBlock_def readGraphicControlExtension_def
          readApplicationExtension_def readGraphicRenderingBlock_def
          readTableBasedImage_def readPlainTextExtension_def extension_def)
  then have a: "\<forall>i. readGraphicBlock (length ?d) (?d[13 := extension]) 13 \<noteq> Ok i"
    by simp
  have b: "13 + 1 < length ?d \<and> ?d ! 13 = trailer \<and> reprocess ?conf"
    by (simp add: trailer_def)
  have ne: "dataBlockStep ?conf 15 ?d 13 ?gs \<noteq> Return Panic"
    by code_simp
  from failed_recovery_frame [OF a, of ?conf 15 ?gs] b ne
  have "dataBlockStep ?conf 15 ?d 13 ?gs
      = Return (Ok (13 + 1,
          ?gs\<lparr>readTrailerSeen := True, bytesOutstanding := length ?d - (13 + 1)\<rparr>, ?d))"
    by blast
  then show ?thesis by simp
qed

text \<open>
  C4 (as amended). When the speculative Graphic Block is read on the copy, the pass
  writes the extension introducer into the real buffer, appends the patch and continues
  at the offset of the trailer byte itself, not at the offset the speculative production
  returned. The next pass therefore reads the recovered block once more, now from the
  real buffer, and arrives at that offset.
\<close>

theorem recovery_resumes_at_trailer_offset:
  assumes "length data \<le> c"
    and "idx + 1 < length data"
    and "data ! idx = trailer"
    and "reprocess conf"
    and "readGraphicBlock (length data) (data[idx := extension]) idx = Ok i"
  shows "dataBlockStep conf c data idx gs
           = Continue idx
               (gs\<lparr>readTrailerSeen := True, bytesOutstanding := length data - (idx + 1),
                   patches := patches gs @
                     [\<lparr>index = idx, oldValue = trailer, newValue = extension\<rparr>]\<rparr>)
               (data[idx := extension])
       \<and> dataBlockStep conf c (data[idx := extension]) idx gs2
           = Continue i gs2 (data[idx := extension])
       \<and> idx < i"
proof -
  have 1: "dataBlockStep conf c data idx gs
           = Continue idx
               (gs\<lparr>readTrailerSeen := True, bytesOutstanding := length data - (idx + 1),
                   patches := patches gs @
                     [\<lparr>index = idx, oldValue = trailer, newValue = extension\<rparr>]\<rparr>)
               (data[idx := extension])"
    using assms(2-5) by (subst step_at_trailer) auto
  have "length (data[idx := extension]) \<le> c"
    using assms(1) by simp
  from readGraphicBlock_cap[OF this, of idx] assms(5)
  have g: "readGraphicBlock c (data[idx := extension]) idx = Ok i"
    by simp
  have 2: "dataBlockStep conf c (data[idx := extension]) idx gs2
           = Continue i gs2 (data[idx := extension])"
    by (rule step_where_graphic[OF g])
  have 3: "idx < i"
    using readGraphicBlock_Ok[OF g] by simp
  from 1 2 3 show ?thesis by simp
qed

theorem recovery_resumes_at_trailer_offset_witness:
  "dataBlockStep \<lparr>logLevel = 2, reprocess = True, outFile = '''', write' = False\<rparr> 34
     [0x47, 0x49, 0x46, 0x38, 0x39, 0x61, 0, 0, 0, 0, 0, 0, 0,
      0x3b, 0xf9, 4, 0, 0, 0, 0, 0,
      0x2c, 0, 0, 0, 0, 0, 0, 0, 0, 0, 2, 0, 0x3b] 13
     \<lparr>validSignature = True, readTrailerSeen = False, bytesOutstanding = 0, patches = []\<rparr>
   = Continue 13
       \<lparr>validSignature = True, readTrailerSeen = True, bytesOutstanding = 20,
        patches = [\<lparr>index = 13, oldValue = 0x3b, newValue = 0x21\<rparr>]\<rparr>
       [0x47, 0x49, 0x46, 0x38, 0x39, 0x61, 0, 0, 0, 0, 0, 0, 0,
        0x21, 0xf9, 4, 0, 0, 0, 0, 0,
        0x2c, 0, 0, 0, 0, 0, 0, 0, 0, 0, 2, 0, 0x3b]
   \<and> dataBlockStep \<lparr>logLevel = 2, reprocess = True, outFile = '''', write' = False\<rparr> 34
       [0x47, 0x49, 0x46, 0x38, 0x39, 0x61, 0, 0, 0, 0, 0, 0, 0,
        0x21, 0xf9, 4, 0, 0, 0, 0, 0,
        0x2c, 0, 0, 0, 0, 0, 0, 0, 0, 0, 2, 0, 0x3b] 13
       \<lparr>validSignature = True, readTrailerSeen = True, bytesOutstanding = 20,
        patches = [\<lparr>index = 13, oldValue = 0x3b, newValue = 0x21\<rparr>]\<rparr>
     = Continue 33
       \<lparr>validSignature = True, readTrailerSeen = True, bytesOutstanding = 20,
        patches = [\<lparr>index = 13, oldValue = 0x3b, newValue = 0x21\<rparr>]\<rparr>
       [0x47, 0x49, 0x46, 0x38, 0x39, 0x61, 0, 0, 0, 0, 0, 0, 0,
        0x21, 0xf9, 4, 0, 0, 0, 0, 0,
        0x2c, 0, 0, 0, 0, 0, 0, 0, 0, 0, 2, 0, 0x3b]"
proof -
  let ?d = "[0x47, 0x49, 0x46, 0x38, 0x39, 0x61, 0, 0, 0, 0, 0, 0, 0,
      0x3b, 0xf9, 4, 0, 0, 0, 0, 0,
      0x2c, 0, 0, 0, 0, 0, 0, 0, 0, 0, 2, 0, 0x3b] :: byte list"
  let ?conf = "\<lparr>logLevel = 2, reprocess = True, outFile = '''', write' = False\<rparr>"
  have 1: "length ?d \<le> 34" by simp
  have 2: "13 + 1 < length ?d" by simp
  have 3: "?d ! 13 = trailer" by (simp add: trailer_def)
  have 4: "reprocess ?conf" by simp
  have 5: "readGraphicBlock (length ?d) (?d[13 := extension]) 13 = Ok 33"
    by code_simp
  show ?thesis
    using recovery_resumes_at_trailer_offset [OF 1 2 3 4 5]
    by (simp add: trailer_def extension_def)
qed

theorem recovery_resume_counterexample:
  "dataBlockStep \<lparr>logLevel = 2, reprocess = True, outFile = '''', write' = False\<rparr> 34
     [0x47, 0x49, 0x46, 0x38, 0x39, 0x61, 0, 0, 0, 0, 0, 0, 0,
      0x3b, 0xf9, 4, 0, 0, 0, 0, 0,
      0x2c, 0, 0, 0, 0, 0, 0, 0, 0, 0, 2, 0, 0x3b] 13
     \<lparr>validSignature = True, readTrailerSeen = False, bytesOutstanding = 0, patches = []\<rparr>
   = Continue 13
       \<lparr>validSignature = True, readTrailerSeen = True, bytesOutstanding = 20,
        patches = [\<lparr>index = 13, oldValue = 0x3b, newValue = 0x21\<rparr>]\<rparr>
       [0x47, 0x49, 0x46, 0x38, 0x39, 0x61, 0, 0, 0, 0, 0, 0, 0,
        0x21, 0xf9, 4, 0, 0, 0, 0, 0,
        0x2c, 0, 0, 0, 0, 0, 0, 0, 0, 0, 2, 0, 0x3b]
   \<and> readGraphicBlock 34
       [0x47, 0x49, 0x46, 0x38, 0x39, 0x61, 0, 0, 0, 0, 0, 0, 0,
        0x21, 0xf9, 4, 0, 0, 0, 0, 0,
        0x2c, 0, 0, 0, 0, 0, 0, 0, 0, 0, 2, 0, 0x3b] 13 = Ok 33
   \<and> (13 :: nat) \<noteq> 33"
  by code_simp

subsection \<open>Passes that do not depend on the configuration\<close>

text \<open>
  With recovery switched off a pass continues only behind a block it has read; such a
  pass changes neither the buffer nor the state, and is the same pass under every
  configuration.
\<close>

lemma step_no_reprocess:
  assumes "dataBlockStep conf c data idx gs = Continue idx' gs' data'"
    and "\<not> reprocess conf"
  shows "data' = data \<and> gs' = gs \<and> dataBlockStep conf' c data idx gs = Continue idx' gs data"
  using assms
  by (auto simp: dataBlockStep_def Let_def split: result.splits if_splits)

lemma passes_no_reprocess:
  assumes "passes conf c n (idx0, gs0, data0) = Continue idx gs data"
    and "\<not> reprocess conf"
  shows "data = data0 \<and> gs = gs0 \<and> passes conf' c n (idx0, gs0, data0) = Continue idx gs0 data0"
  using assms(1)
proof (induction n arbitrary: idx0)
  case 0
  then show ?case by simp
next
  case (Suc n)
  from Suc.prems obtain i1 g1 d1 where
    s: "dataBlockStep conf c data0 idx0 gs0 = Continue i1 g1 d1"
    and p: "passes conf c n (i1, g1, d1) = Continue idx gs data"
    by (auto split: step.splits)
  from step_no_reprocess[OF s assms(2), of conf']
  have e: "d1 = data0" "g1 = gs0" "dataBlockStep conf' c data0 idx0 gs0 = Continue i1 gs0 data0"
    by simp_all
  from Suc.IH[of i1] p e show ?case by simp
qed

text \<open>
  The speculative Graphic Block starts on the trailer byte itself. When a whole Graphic
  Block follows the trailer byte instead, the byte behind the rewritten introducer is
  an introducer or an image separator, never a label, and the attempt fails.
\<close>

lemma recovery_fails_before_whole_block:
  assumes "readGraphicBlock c data (T + 1) = Ok j"
  shows "readGraphicBlock c' (data[T := extension]) T
           = Fail (UnableToReadGraphicRenderingBlock NotGraphicRenderingBlock)"
proof -
  from readGraphicBlock_Ok[OF assms]
  have "T + 1 < length data" "data ! (T + 1) = 0x2c \<or> data ! (T + 1) = extension"
    by simp_all
  then show ?thesis
    by (auto simp: readGraphicBlock_def readGraphicControlExtension_def
          readApplicationExtension_def readGraphicRenderingBlock_def
          readTableBasedImage_def readPlainTextExtension_def extension_def)
qed

section \<open>Forged-trailer recovery, end to end\<close>

text \<open>
  C1 (as amended). Take a buffer with header, logical screen descriptor and optional
  global colour table, then blocks that the loop reads up to an offset \<open>T\<close>, a byte
  \<open>0x3b\<close> at \<open>T\<close> that stands in the place of the first byte of a Graphic Block (with
  \<open>0x21\<close> written at \<open>T\<close>, a Graphic Block is read from \<open>T\<close> up to the last byte), and
  \<open>0x3b\<close> as the last byte. With recovery disabled the loop stops behind the first
  \<open>0x3b\<close>, the outstanding bytes are all the bytes behind it, the ledger is empty, and
  \<^verbatim>\<open>decodeGIF\<close> reports that the image was not parsed entirely. With recovery enabled
  the loop reads both blocks, ends at the end of the buffer with no outstanding bytes
  and exactly one patch, at \<open>T\<close>, from \<open>0x3b\<close> to \<open>0x21\<close>, and \<^verbatim>\<open>decodeGIF\<close> succeeds;
  when an output file is configured it writes the buffer with \<open>0x21\<close> at \<open>T\<close>.
\<close>

theorem forged_trailer_recovery:
  assumes "length data \<le> c"
    and "dataStart data = Ok idx3"
    and "patches gs0 = []"
    and "passes (conf\<lparr>reprocess := False\<rparr>) c n (idx3, gs0\<lparr>validSignature := True\<rparr>, data)
           = Continue T gs data"
    and "data ! T = trailer"
    and "readGraphicBlock (length data) (data[T := extension]) T = Ok (length data - 1)"
    and "data ! (length data - 1) = trailer"
  shows "readDataBlocksAndTrailer (conf\<lparr>reprocess := False\<rparr>) c data idx3
             (gs0\<lparr>validSignature := True\<rparr>)
           = Ok (T + 1,
                 gs0\<lparr>validSignature := True, readTrailerSeen := True,
                     bytesOutstanding := length data - (T + 1)\<rparr>, data)
       \<and> decodeGIF (conf\<lparr>reprocess := False\<rparr>) c data gs0
           = Fail (FailedToParseEntireImage (T + 1) (length data))
       \<and> readDataBlocksAndTrailer (conf\<lparr>reprocess := True\<rparr>) c data idx3
             (gs0\<lparr>validSignature := True\<rparr>)
           = Ok (length data,
                 gs0\<lparr>validSignature := True, readTrailerSeen := True, bytesOutstanding := 0,
                     patches := [\<lparr>index = T, oldValue = 0x3b, newValue = 0x21\<rparr>]\<rparr>,
                 data[T := 0x21])
       \<and> decodeGIF (conf\<lparr>reprocess := True\<rparr>) c data gs0
           = Ok (gs0\<lparr>validSignature := True, readTrailerSeen := True, bytesOutstanding := 0,
                     patches := [\<lparr>index = T, oldValue = 0x3b, newValue = 0x21\<rparr>]\<rparr>,
                 if write' conf \<and> outFile conf \<noteq> [] then Some (data[T := 0x21]) else None)"
proof -
  let ?off = "conf\<lparr>reprocess := False\<rparr>"
  let ?on = "conf\<lparr>reprocess := True\<rparr>"
  let ?g = "gs0\<lparr>validSignature := True\<rparr>"
  let ?d' = "data[T := extension]"
  let ?L = "length data"
  from readGraphicBlock_Ok[OF assms(6)]
  have T: "T + 12 \<le> ?L - 1" by simp
  then have T1: "T + 1 < ?L" "T < ?L" "?L - 1 < ?L" "T \<noteq> ?L - 1" by simp_all
  have gs: "gs = ?g"
    and on: "passes ?on c n (idx3, ?g, data) = Continue T ?g data"
    using passes_no_reprocess[OF assms(4), of ?on] by simp_all
  have off: "passes ?off c n (idx3, ?g, data) = Continue T ?g data"
    using assms(4) gs by simp
  \<comment> \<open>recovery disabled\<close>
  have "dataBlockStep ?off c data T ?g
          = Return (Ok (T + 1, ?g\<lparr>readTrailerSeen := True, bytesOutstanding := ?L - (T + 1)\<rparr>,
                        data))"
    using T1 assms(5) by (subst step_at_trailer) auto
  from loop_Return[OF this] loop_passes[OF off]
  have A: "readDataBlocksAndTrailer ?off c data idx3 ?g
          = Ok (T + 1, ?g\<lparr>readTrailerSeen := True, bytesOutstanding := ?L - (T + 1)\<rparr>, data)"
    by simp
  have B: "decodeGIF ?off c data gs0 = Fail (FailedToParseEntireImage (T + 1) ?L)"
    using T1 by (simp add: decodeGIF_dataStart assms(2) A)
  \<comment> \<open>recovery enabled\<close>
  let ?g2 = "?g\<lparr>readTrailerSeen := True, bytesOutstanding := ?L - (T + 1),
                patches := patches ?g @
                  [\<lparr>index = T, oldValue = trailer, newValue = extension\<rparr>]\<rparr>"
  have s1: "dataBlockStep ?on c data T ?g = Continue T ?g2 ?d'"
    using T1 assms(5,6) by (subst step_at_trailer) auto
  have "length ?d' \<le> c" using assms(1) by simp
  from readGraphicBlock_cap[OF this, of T] assms(6)
  have "readGraphicBlock c ?d' T = Ok (?L - 1)" by simp
  then have s2: "dataBlockStep ?on c ?d' T ?g2 = Continue (?L - 1) ?g2 ?d'"
    by (rule step_where_graphic)
  have last: "?d' ! (?L - 1) = trailer" "?L - 1 < length ?d'"
    using assms(7) T1 by simp_all
  have s3: "dataBlockStep ?on c ?d' (?L - 1) ?g2
              = Return (Ok (?L, ?g2\<lparr>readTrailerSeen := True, bytesOutstanding := 0\<rparr>, ?d'))"
  proof -
    have e: "?L - 1 + 1 = ?L" using T1 by simp
    show ?thesis
      unfolding step_at_trailer[OF last(2,1)] e by simp
  qed
  have "readDataBlocksAndTrailer ?on c data idx3 ?g
          = Ok (?L, ?g2\<lparr>readTrailerSeen := True, bytesOutstanding := 0\<rparr>, ?d')"
    using loop_passes[OF on] loop_Continue[OF s1] loop_Continue[OF s2] loop_Return[OF s3]
    by simp
  then have C: "readDataBlocksAndTrailer ?on c data idx3 ?g
          = Ok (?L, gs0\<lparr>validSignature := True, readTrailerSeen := True, bytesOutstanding := 0,
                     patches := [\<lparr>index = T, oldValue = 0x3b, newValue = 0x21\<rparr>]\<rparr>,
                data[T := 0x21])"
    using assms(3) by (simp add: trailer_def extension_def)
  have ap: "applyPatches (data[T := 0x21]) [\<lparr>index = T, oldValue = 0x3b, newValue = 0x21\<rparr>]
              = Ok (data[T := 0x21])"
    using T1 by simp
  have D: "decodeGIF ?on c data gs0
          = Ok (gs0\<lparr>validSignature := True, readTrailerSeen := True, bytesOutstanding := 0,
                     patches := [\<lparr>index = T, oldValue = 0x3b, newValue = 0x21\<rparr>]\<rparr>,
                 if write' conf \<and> outFile conf \<noteq> [] then Some (data[T := 0x21]) else None)"
    using T1 by (simp add: decodeGIF_dataStart assms(2) C ap)
  from A B C D show ?thesis by simp
qed

theorem forged_trailer_recovery_witness:
  "readDataBlocksAndTrailer \<lparr>logLevel = 2, reprocess = False, outFile = '''', write' = False\<rparr> 52
     [0x47, 0x49, 0x46, 0x38, 0x39, 0x61, 0, 0, 0, 0, 0, 0, 0,
      0x2c, 0, 0, 0, 0, 0, 0, 0, 0, 0, 2, 2, 0x4c, 1, 0,
      0x3b, 0xf9, 4, 0, 0, 0, 0, 0,
      0x2c, 0, 0, 0, 0, 0, 0, 0, 0, 0, 2, 2, 0x4c, 1, 0,
      0x3b] 13
     \<lparr>validSignature = True, readTrailerSeen = False, bytesOutstanding = 0, patches = []\<rparr>
   = Ok (29,
         \<lparr>validSignature = True, readTrailerSeen = True, bytesOutstanding = 23, patches = []\<rparr>,
         [0x47, 0x49, 0x46, 0x38, 0x39, 0x61, 0, 0, 0, 0, 0, 0, 0,
      0x2c, 0, 0, 0, 0, 0, 0, 0, 0, 0, 2, 2, 0x4c, 1, 0,
      0x3b, 0xf9, 4, 0, 0, 0, 0, 0,
      0x2c, 0, 0, 0, 0, 0, 0, 0, 0, 0, 2, 2, 0x4c, 1, 0,
      0x3b])
   \<and> decodeGIF \<lparr>logLevel = 2, reprocess = False, outFile = '''', write' = False\<rparr> 52
     [0x47, 0x49, 0x46, 0x38, 0x39, 0x61, 0, 0, 0, 0, 0, 0, 0,
      0x2c, 0, 0, 0, 0, 0, 0, 0, 0, 0, 2, 2, 0x4c, 1, 0,
      0x3b, 0xf9, 4, 0, 0, 0, 0, 0,
      0x2c, 0, 0, 0, 0, 0, 0, 0, 0, 0, 2, 2, 0x4c, 1, 0,
      0x3b]
     \<lparr>validSignature = False, readTrailerSeen = False, bytesOutstanding = 0, patches = []\<rparr>
   = Fail (FailedToParseEntireImage 29 52)
   \<and> readDataBlocksAndTrailer \<lparr>logLevel = 2, reprocess = True, outFile = '''', write' = False\<rparr> 52
     [0x47, 0x49, 0x46, 0x38, 0x39, 0x61, 0, 0, 0, 0, 0, 0, 0,
      0x2c, 0, 0, 0, 0, 0, 0, 0, 0, 0, 2, 2, 0x4c, 1, 0,
      0x3b, 0xf9, 4, 0, 0, 0, 0, 0,
      0x2c, 0, 0, 0, 0, 0, 0, 0, 0, 0, 2, 2, 0x4c, 1, 0,
      0x3b] 13
     \<lparr>validSignature = True, readTrailerSeen = False, bytesOutstanding = 0, patches = []\<rparr>
   = Ok (52,
         \<lparr>validSignature = True, readTrailerSeen = True, bytesOutstanding = 0,
          patches = [\<lparr>index = 28, oldValue = 0x3b, newValue = 0x21\<rparr>]\<rparr>,
         [0x47, 0x49, 0x46, 0x38, 0x39, 0x61, 0, 0, 0, 0, 0, 0, 0,
      0x2c, 0, 0, 0, 0, 0, 0, 0, 0, 0, 2, 2, 0x4c, 1, 0,
      0x21, 0xf9, 4, 0, 0, 0, 0, 0,
      0x2c, 0, 0, 0, 0, 0, 0, 0, 0, 0, 2, 2, 0x4c, 1, 0,
      0x3b])
   \<and> decodeGIF \<lparr>logLevel = 2, reprocess = True, outFile = '''', write' = False\<rparr> 52
     [0x47, 0x49, 0x46, 0x38, 0x39, 0x61, 0, 0, 0, 0, 0, 0, 0,
      0x2c, 0, 0, 0, 0, 0, 0, 0, 0, 0, 2, 2, 0x4c, 1, 0,
      0x3b, 0xf9, 4, 0, 0, 0, 0, 0,
      0x2c, 0, 0, 0, 0, 0, 0, 0, 0, 0, 2, 2, 0x4c, 1, 0,
      0x3b]
     \<lparr>validSignature = False, readTrailerSeen = False, bytesOutstanding = 0, patches = []\<rparr>
   = Ok (\<lparr>validSignature = True, readTrailerSeen = True, bytesOutstanding = 0,
          patches = [\<lparr>index = 28, oldValue = 0x3b, newValue = 0x21\<rparr>]\<rparr>, None)"
proof -
  let ?d = "[0x47, 0x49, 0x46, 0x38, 0x39, 0x61, 0, 0, 0, 0, 0, 0, 0,
      0x2c, 0, 0, 0, 0, 0, 0, 0, 0, 0, 2, 2, 0x4c, 1, 0,
      0x3b, 0xf9, 4, 0, 0, 0, 0, 0,
      0x2c, 0, 0, 0, 0, 0, 0, 0, 0, 0, 2, 2, 0x4c, 1, 0,
      0x3b] :: byte list"
  let ?conf = "\<lparr>logLevel = 2, reprocess = False, outFile = '''', write' = False\<rparr>"
  let ?gs0 = "\<lparr>validSignature = False, readTrailerSeen = False, bytesOutstanding = 0,
               patches = []\<rparr>"
  have 1: "length ?d \<le> 52" by simp
  have 2: "dataStart ?d = Ok 13" by code_simp
  have 3: "patches ?gs0 = []" by simp
  have 4: "passes (?conf\<lparr>reprocess := False\<rparr>) 52 1 (13, ?gs0\<lparr>validSignature := True\<rparr>, ?d)
             = Continue 28 (?gs0\<lparr>validSignature := True\<rparr>) ?d"
    by code_simp
  have 5: "?d ! 28 = trailer" by (simp add: trailer_def)
  have 6: "readGraphicBlock (length ?d) (?d[28 := extension]) 28 = Ok (length ?d - 1)"
    by code_simp
  have 7: "?d ! (length ?d - 1) = trailer" by (simp add: trailer_def)
  show ?thesis
    using forged_trailer_recovery [OF 1 2 3 4 5 6 7] by simp
qed

theorem forged_trailer_counterexample:
  "readSpecialPurposeBlock 39 [0x47, 0x49, 0x46, 0x38, 0x39, 0x61, 0, 0, 0, 0, 0, 0, 0,
      0x2c, 0, 0, 0, 0, 0, 0, 0, 0, 0, 2, 0,
      0x3b,
      0x2c, 0, 0, 0, 0, 0, 0, 0, 0, 0, 2, 0,
      0x3b] 13
     = Fail (UnableToReadSpecialPurposeBlock NoExtensionIntroducer)
   \<and> readGraphicBlock 39 [0x47, 0x49, 0x46, 0x38, 0x39, 0x61, 0, 0, 0, 0, 0, 0, 0,
      0x2c, 0, 0, 0, 0, 0, 0, 0, 0, 0, 2, 0,
      0x3b,
      0x2c, 0, 0, 0, 0, 0, 0, 0, 0, 0, 2, 0,
      0x3b] 13 = Ok 25
   \<and> ([0x47, 0x49, 0x46, 0x38, 0x39, 0x61, 0, 0, 0, 0, 0, 0, 0,
      0x2c, 0, 0, 0, 0, 0, 0, 0, 0, 0, 2, 0,
      0x3b,
      0x2c, 0, 0, 0, 0, 0, 0, 0, 0, 0, 2, 0,
      0x3b] :: byte list) ! 25 = 0x3b
   \<and> readGraphicBlock 39 [0x47, 0x49, 0x46, 0x38, 0x39, 0x61, 0, 0, 0, 0, 0, 0, 0,
      0x2c, 0, 0, 0, 0, 0, 0, 0, 0, 0, 2, 0,
      0x3b,
      0x2c, 0, 0, 0, 0, 0, 0, 0, 0, 0, 2, 0,
      0x3b] 26 = Ok 38
   \<and> ([0x47, 0x49, 0x46, 0x38, 0x39, 0x61, 0, 0, 0, 0, 0, 0, 0,
      0x2c, 0, 0, 0, 0, 0, 0, 0, 0, 0, 2, 0,
      0x3b,
      0x2c, 0, 0, 0, 0, 0, 0, 0, 0, 0, 2, 0,
      0x3b] :: byte list) ! 38 = 0x3b
   \<and> length ([0x47, 0x49, 0x46, 0x38, 0x39, 0x61, 0, 0, 0, 0, 0, 0, 0,
      0x2c, 0, 0, 0, 0, 0, 0, 0, 0, 0, 2, 0,
      0x3b,
      0x2c, 0, 0, 0, 0, 0, 0, 0, 0, 0, 2, 0,
      0x3b] :: byte list) = 39
   \<and> readDataBlocksAndTrailer \<lparr>logLevel = 2, reprocess = True, outFile = '''', write' = False\<rparr> 39
     [0x47, 0x49, 0x46, 0x38, 0x39, 0x61, 0, 0, 0, 0, 0, 0, 0,
      0x2c, 0, 0, 0, 0, 0, 0, 0, 0, 0, 2, 0,
      0x3b,
      0x2c, 0, 0, 0, 0, 0, 0, 0, 0, 0, 2, 0,
      0x3b] 13
     \<lparr>validSignature = True, readTrailerSeen = False, bytesOutstanding = 0, patches = []\<rparr>
   = Ok (26,
         \<lparr>validSignature = True, readTrailerSeen = True, bytesOutstanding = 13, patches = []\<rparr>,
         [0x47, 0x49, 0x46, 0x38, 0x39, 0x61, 0, 0, 0, 0, 0, 0, 0,
      0x2c, 0, 0, 0, 0, 0, 0, 0, 0, 0, 2, 0,
      0x3b,
      0x2c, 0, 0, 0, 0, 0, 0, 0, 0, 0, 2, 0,
      0x3b])
   \<and> decodeGIF \<lparr>logLevel = 2, reprocess = True, outFile = '''', write' = False\<rparr> 39
     [0x47, 0x49, 0x46, 0x38, 0x39, 0x61, 0, 0, 0, 0, 0, 0, 0,
      0x2c, 0, 0, 0, 0, 0, 0, 0, 0, 0, 2, 0,
      0x3b,
      0x2c, 0, 0, 0, 0, 0, 0, 0, 0, 0, 2, 0,
      0x3b]
     \<lparr>validSignature = False, readTrailerSeen = False, bytesOutstanding = 0, patches = []\<rparr>
   = Fail (FailedToParseEntireImage 26 39)"
  by code_simp

section \<open>The ledger and the written file\<close>

text \<open>
  What a pass does to the state, case by case.
\<close>

lemma dataBlockStep_Continue_state:
  assumes "dataBlockStep conf c data idx gs = Continue idx' gs' data'"
  shows "(data' = data \<and> gs' = gs)
       \<or> (idx < length data \<and> data' = data[idx := extension]
           \<and> patches gs' = patches gs @
                [\<lparr>index = idx, oldValue = trailer, newValue = extension\<rparr>])"
  using assms
  by (auto simp: dataBlockStep_def Let_def split: result.splits if_splits
           dest!: readTrailer_Ok)

lemma dataBlockStep_Return_Ok:
  assumes "dataBlockStep conf c data idx gs = Return (Ok (j, gs', data'))"
  shows "data' = data \<and> patches gs' = patches gs \<and> j = idx + 1 \<and> idx < length data
       \<and> data ! idx = trailer \<and> readTrailerSeen gs' \<and> bytesOutstanding gs' = length data - j"
  using assms
  by (auto simp: dataBlockStep_def Let_def split: result.splits if_splits
           dest!: readTrailer_Ok)

text \<open>
  The invariant of the ledger: every recorded patch lies inside the buffer, goes from
  the trailer to the extension introducer, and the buffer already holds its new value.
\<close>

definition patchesApplied :: "byte list \<Rightarrow> patch list \<Rightarrow> bool" where
  "patchesApplied data ps =
     list_all (\<lambda>p. index p < length data \<and> data ! index p = extension
                  \<and> oldValue p = trailer \<and> newValue p = extension) ps"

lemma patchesApplied_step:
  assumes "dataBlockStep conf c data idx gs = Continue idx' gs' data'"
    and "patchesApplied data (patches gs)"
  shows "patchesApplied data' (patches gs')"
  using dataBlockStep_Continue_state[OF assms(1)] assms(2)
  by (auto simp: patchesApplied_def list_all_iff nth_list_update)

lemma loop_result:
  "readDataBlocksAndTrailer conf c data idx gs = Ok (j, gs', data') \<Longrightarrow>
     length data' = length data \<and> 0 < j \<and> j \<le> length data
     \<and> data' ! (j - 1) = trailer \<and> data ! (j - 1) = trailer
     \<and> readTrailerSeen gs' \<and> bytesOutstanding gs' = length data - j
     \<and> (patchesApplied data (patches gs) \<longrightarrow> patchesApplied data' (patches gs'))"
proof (induction conf c data idx gs rule: readDataBlocksAndTrailer.induct)
  case (1 conf c data idx gs)
  show ?case
  proof (cases "dataBlockStep conf c data idx gs")
    case (Return r)
    with "1.prems" have "dataBlockStep conf c data idx gs = Return (Ok (j, gs', data'))"
      by (simp add: readDataBlocksAndTrailer.simps[of conf c data idx gs])
    from dataBlockStep_Return_Ok[OF this] show ?thesis
      by auto
  next
    case (Continue idx1 gs1 data1)
    with "1.prems" have "readDataBlocksAndTrailer conf c data1 idx1 gs1 = Ok (j, gs', data')"
      by (simp add: readDataBlocksAndTrailer.simps[of conf c data idx gs])
    from "1.IH"[OF Continue this]
    have IH: "length data' = length data1" "0 < j" "j \<le> length data1"
      "data' ! (j - 1) = trailer" "data1 ! (j - 1) = trailer"
      "readTrailerSeen gs'" "bytesOutstanding gs' = length data1 - j"
      "patchesApplied data1 (patches gs1) \<longrightarrow> patchesApplied data' (patches gs')"
      by simp_all
    from dataBlockStep_Continue_state[OF Continue]
    have d: "data1 = data \<or> data1 = data[idx := extension]"
      by auto
    then have len: "length data1 = length data" by auto
    have "data ! (j - 1) = trailer"
    proof (cases "j - 1 = idx \<and> data1 = data[idx := extension]")
      case True
      with IH(2,3,5) len have "idx < length data" "data[idx := extension] ! idx = trailer"
        by auto
      then have "extension = trailer" by simp
      then show ?thesis by (simp add: extension_def trailer_def)
    next
      case False
      with d IH(5) show ?thesis by auto
    qed
    with IH len patchesApplied_step[OF Continue] show ?thesis
      by simp
  qed
qed

lemma applyPatches_applied: "patchesApplied data ps \<Longrightarrow> applyPatches data ps = Ok data"
  by (induction ps) (auto simp: patchesApplied_def extension_def trailer_def)

text \<open>
  C10. The pass that appends a patch has written the new value into the real buffer in
  the same pass. So when \<^verbatim>\<open>decodeGIF\<close> writes the output file, every recorded patch
  finds the byte at its index different from its old value: each one is skipped, and
  the bytes written are the buffer as the loop left it.
\<close>

theorem patches_already_applied:
  assumes "dataStart data = Ok idx3"
    and "patches gs0 = []"
    and "readDataBlocksAndTrailer conf c data idx3 (gs0\<lparr>validSignature := True\<rparr>)
           = Ok (length data, gs', data')"
    and "write' conf"
    and "outFile conf \<noteq> []"
  shows "(\<forall>p \<in> set (patches gs').
            index p < length data' \<and> oldValue p = 0x3b \<and> newValue p = 0x21
            \<and> data' ! index p = newValue p \<and> data' ! index p \<noteq> oldValue p)
       \<and> applyPatches data' (patches gs') = Ok data'
       \<and> decodeGIF conf c data gs0 = Ok (gs', Some data')"
proof -
  have "patchesApplied data (patches (gs0\<lparr>validSignature := True\<rparr>))"
    using assms(2) by (simp add: patchesApplied_def)
  with loop_result[OF assms(3)]
  have inv: "patchesApplied data' (patches gs')" and len: "length data' = length data"
    by simp_all
  from inv have 1: "\<forall>p \<in> set (patches gs').
            index p < length data' \<and> oldValue p = 0x3b \<and> newValue p = 0x21
            \<and> data' ! index p = newValue p \<and> data' ! index p \<noteq> oldValue p"
    by (auto simp: patchesApplied_def list_all_iff extension_def trailer_def)
  have 2: "applyPatches data' (patches gs') = Ok data'"
    by (rule applyPatches_applied[OF inv])
  have 3: "decodeGIF conf c data gs0 = Ok (gs', Some data')"
    using assms(1,4,5) len by (simp add: decodeGIF_dataStart assms(3) 2)
  from 1 2 3 show ?thesis by blast
qed

theorem patches_already_applied_witness:
  "applyPatches
     [0x47, 0x49, 0x46, 0x38, 0x39, 0x61, 0, 0, 0, 0, 0, 0, 0,
      0x2c, 0, 0, 0, 0, 0, 0, 0, 0, 0, 2, 2, 0x4c, 1, 0,
      0x21, 0xf9, 4, 0, 0, 0, 0, 0,
      0x2c, 0, 0, 0, 0, 0, 0, 0, 0, 0, 2, 2, 0x4c, 1, 0,
      0x3b]
     [\<lparr>index = 28, oldValue = 0x3b, newValue = 0x21\<rparr>]
   = Ok [0x47, 0x49, 0x46, 0x38, 0x39, 0x61, 0, 0, 0, 0, 0, 0, 0,
      0x2c, 0, 0, 0, 0, 0, 0, 0, 0, 0, 2, 2, 0x4c, 1, 0,
      0x21, 0xf9, 4, 0, 0, 0, 0, 0,
      0x2c, 0, 0, 0, 0, 0, 0, 0, 0, 0, 2, 2, 0x4c, 1, 0,
      0x3b]
   \<and> decodeGIF \<lparr>logLevel = 2, reprocess = True, outFile = ''out.gif'', write' = True\<rparr> 52
     [0x47, 0x49, 0x46, 0x38, 0x39, 0x61, 0, 0, 0, 0, 0, 0, 0,
      0x2c, 0, 0, 0, 0, 0, 0, 0, 0, 0, 2, 2, 0x4c, 1, 0,
      0x3b, 0xf9, 4, 0, 0, 0, 0, 0,
      0x2c, 0, 0, 0, 0, 0, 0, 0, 0, 0, 2, 2, 0x4c, 1, 0,
      0x3b]
     \<lparr>validSignature = False, readTrailerSeen = False, bytesOutstanding = 0, patches = []\<rparr>
   = Ok (\<lparr>validSignature = True, readTrailerSeen = True, bytesOutstanding = 0,
          patches = [\<lparr>index = 28, oldValue = 0x3b, newValue = 0x21\<rparr>]\<rparr>,
         Some [0x47, 0x49, 0x46, 0x38, 0x39, 0x61, 0, 0, 0, 0, 0, 0, 0,
      0x2c, 0, 0, 0, 0, 0, 0, 0, 0, 0, 2, 2, 0x4c, 1, 0,
      0x21, 0xf9, 4, 0, 0, 0, 0, 0,
      0x2c, 0, 0, 0, 0, 0, 0, 0, 0, 0, 2, 2, 0x4c, 1, 0,
      0x3b])"
proof -
  let ?d = "[0x47, 0x49, 0x46, 0x38, 0x39, 0x61, 0, 0, 0, 0, 0, 0, 0,
      0x2c, 0, 0, 0, 0, 0, 0, 0, 0, 0, 2, 2, 0x4c, 1, 0,
      0x3b, 0xf9, 4, 0, 0, 0, 0, 0,
      0x2c, 0, 0, 0, 0, 0, 0, 0, 0, 0, 2, 2, 0x4c, 1, 0,
      0x3b] :: byte list"
  let ?d' = "[0x47, 0x49, 0x46, 0x38, 0x39, 0x61, 0, 0, 0, 0, 0, 0, 0,
      0x2c, 0, 0, 0, 0, 0, 0, 0, 0, 0, 2, 2, 0x4c, 1, 0,
      0x21, 0xf9, 4, 0, 0, 0, 0, 0,
      0x2c, 0, 0, 0, 0, 0, 0, 0, 0, 0, 2, 2, 0x4c, 1, 0,
      0x3b] :: byte list"
  let ?conf = "\<lparr>logLevel = 2, reprocess = True, outFile = ''out.gif'', write' = True\<rparr>"
  let ?gs0 = "\<lparr>validSignature = False, readTrailerSeen = False, bytesOutstanding = 0,
               patches = []\<rparr>"
  let ?gs' = "\<lparr>validSignature = True, readTrailerSeen = True, bytesOutstanding = 0,
               patches = [\<lparr>index = 28, oldValue = 0x3b, newValue = 0x21\<rparr>]\<rparr>"
  have 1: "dataStart ?d = Ok 13" by code_simp
  have 2: "patches ?gs0 = []" by simp
  have 3: "readDataBlocksAndTrailer ?conf 52 ?d 13 (?gs0\<lparr>validSignature := True\<rparr>)
             = Ok (length ?d, ?gs', ?d')"
    by code_simp
  have 4: "write' ?conf" by simp
  have 5: "outFile ?conf \<noteq> []" by simp
  show ?thesis
    using patches_already_applied [OF 1 2 3 4 5] by simp
qed

section \<open>Termination\<close>

text \<open>
  Every pass that continues has read a block of at least twelve bytes, or has turned
  the trailer byte under the index into an introducer. So the passes are bounded by
  the bytes left, plus one where the index stands on a trailer byte.
\<close>

lemma iterations_bound:
  "iterations conf c data idx gs
     \<le> (if length data \<le> idx then 1
         else length data - idx + (if data ! idx = trailer then 1 else 0))"
proof (induction conf c data idx gs rule: iterations.induct)
  case (1 conf c data idx gs)
  show ?case
  proof (cases "dataBlockStep conf c data idx gs")
    case (Return r)
    then have "iterations conf c data idx gs = 1"
      by (simp add: iterations.simps[of conf c data idx gs])
    then show ?thesis by (cases "length data \<le> idx") auto
  next
    case (Continue idx1 gs1 data1)
    then have it: "iterations conf c data idx gs = 1 + iterations conf c data1 idx1 gs1"
      by (simp add: iterations.simps[of conf c data idx gs])
    note IH = "1.IH"[OF Continue]
    from dataBlockStep_Continue[OF Continue]
    consider (block) "data1 = data" "idx + 12 \<le> idx1" "idx1 \<le> length data"
        "data ! idx \<noteq> trailer"
      | (patch) "idx1 = idx" "data1 = data[idx := extension]" "data ! idx = trailer"
        "idx + 1 < length data"
      by blast
    then show ?thesis
    proof cases
      case block
      with IH it show ?thesis by (auto split: if_splits)
    next
      case patch
      then have "data1 ! idx1 \<noteq> trailer" "length data1 = length data"
        by (simp_all add: extension_def trailer_def)
      with IH it patch show ?thesis by (auto split: if_splits)
    qed
  qed
qed

text \<open>
  After \<open>iterations\<close> passes the loop has returned, with the result of
  \<^verbatim>\<open>readDataBlocksAndTrailer\<close>.
\<close>

lemma passes_iterations:
  "passes conf c (iterations conf c data idx gs) (idx, gs, data)
     = Return (readDataBlocksAndTrailer conf c data idx gs)"
proof (induction conf c data idx gs rule: iterations.induct)
  case (1 conf c data idx gs)
  show ?case
  proof (cases "dataBlockStep conf c data idx gs")
    case (Return r)
    then show ?thesis
      by (simp add: iterations.simps[of conf c data idx gs]
            readDataBlocksAndTrailer.simps[of conf c data idx gs])
  next
    case (Continue idx1 gs1 data1)
    with "1.IH"[OF Continue] show ?thesis
      by (simp add: iterations.simps[of conf c data idx gs]
            readDataBlocksAndTrailer.simps[of conf c data idx gs])
  qed
qed

text \<open>
  C9. The parse terminates, for every buffer and every configuration. The functions
  of the embedding are total because their termination is proved; and counted in
  passes, the loop that \<^verbatim>\<open>decodeGIF\<close> enters returns after at most as many passes as
  the buffer has bytes. A pass that continues moves the index forward over a block
  inside the buffer, or, on a successful recovery, keeps the index and replaces the
  trailer byte under it, which the next pass then reads as a block.
\<close>

theorem loop_terminates_within_length:
  assumes "dataStart data = Ok idx3"
  shows "iterations conf c data idx3 gs \<le> length data
       \<and> passes conf c (iterations conf c data idx3 gs) (idx3, gs, data)
           = Return (readDataBlocksAndTrailer conf c data idx3 gs)
       \<and> (\<forall>idx idx' g g' data'.
             dataBlockStep conf c data idx g = Continue idx' g' data' \<longrightarrow>
               (idx < idx' \<and> idx' \<le> length data \<and> data' = data)
             \<or> (idx' = idx \<and> idx < length data \<and> data ! idx = trailer
                 \<and> data' = data[idx := extension]))"
proof -
  from dataStart_Ok[OF assms] have "13 \<le> idx3" "13 \<le> length data"
    by simp_all
  with iterations_bound[of conf c data idx3 gs]
  have 1: "iterations conf c data idx3 gs \<le> length data"
    by (auto split: if_splits)
  have 2: "(idx < idx' \<and> idx' \<le> length data \<and> data' = data)
         \<or> (idx' = idx \<and> idx < length data \<and> data ! idx = trailer
             \<and> data' = data[idx := extension])"
    if "dataBlockStep conf c data idx g = Continue idx' g' data'" for idx idx' g g' data'
    using dataBlockStep_Continue[OF that] by auto
  from 1 2 passes_iterations[of conf c data idx3 gs] show ?thesis
    by blast
qed

theorem loop_terminates_within_length_witness:
  "iterations \<lparr>logLevel = 2, reprocess = True, outFile = '''', write' = False\<rparr> 52
     [0x47, 0x49, 0x46, 0x38, 0x39, 0x61, 0, 0, 0, 0, 0, 0, 0,
      0x2c, 0, 0, 0, 0, 0, 0, 0, 0, 0, 2, 2, 0x4c, 1, 0,
      0x3b, 0xf9, 4, 0, 0, 0, 0, 0,
      0x2c, 0, 0, 0, 0, 0, 0, 0, 0, 0, 2, 2, 0x4c, 1, 0,
      0x3b] 13
     \<lparr>validSignature = True, readTrailerSeen = False, bytesOutstanding = 0, patches = []\<rparr>
     \<le> 52
   \<and> iterations \<lparr>logLevel = 2, reprocess = True, outFile = '''', write' = False\<rparr> 52
     [0x47, 0x49, 0x46, 0x38, 0x39, 0x61, 0, 0, 0, 0, 0, 0, 0,
      0x2c, 0, 0, 0, 0, 0, 0, 0, 0, 0, 2, 2, 0x4c, 1, 0,
      0x3b, 0xf9, 4, 0, 0, 0, 0, 0,
      0x2c, 0, 0, 0, 0, 0, 0, 0, 0, 0, 2, 2, 0x4c, 1, 0,
      0x3b] 13
     \<lparr>validSignature = True, readTrailerSeen = False, bytesOutstanding = 0, patches = []\<rparr>
     = 4"
proof -
  let ?d = "[0x47, 0x49, 0x46, 0x38, 0x39, 0x61, 0, 0, 0, 0, 0, 0, 0,
      0x2c, 0, 0, 0, 0, 0, 0, 0, 0, 0, 2, 2, 0x4c, 1, 0,
      0x3b, 0xf9, 4, 0, 0, 0, 0, 0,
      0x2c, 0, 0, 0, 0, 0, 0, 0, 0, 0, 2, 2, 0x4c, 1, 0,
      0x3b] :: byte list"
  have 1: "dataStart ?d = Ok 13" by code_simp
  have 2: "iterations \<lparr>logLevel = 2, reprocess = True, outFile = '''', write' = False\<rparr> 52
     ?d 13
     \<lparr>validSignature = True, readTrailerSeen = False, bytesOutstanding = 0, patches = []\<rparr>
     = 4"
    by code_simp
  show ?thesis
    using loop_terminates_within_length [OF 1,
      of "\<lparr>logLevel = 2, reprocess = True, outFile = '''', write' = False\<rparr>" 52
      "\<lparr>validSignature = True, readTrailerSeen = False, bytesOutstanding = 0, patches = []\<rparr>"]
      2
    by simp
qed

section \<open>The order of the alternatives\<close>

text \<open>
  A pass tries the Special-Purpose Block, then the Graphic Block, then the Trailer, all
  at the same index, and takes the first that is read; a panic in any of them ends the
  pass.
\<close>

lemma dispatch_priority:
  "readSpecialPurposeBlock c data idx = Ok j \<Longrightarrow>
     dataBlockStep conf c data idx gs = Continue j gs data"
  "readSpecialPurposeBlock c data idx = Fail e1 \<Longrightarrow> readGraphicBlock c data idx = Ok j \<Longrightarrow>
     dataBlockStep conf c data idx gs = Continue j gs data"
  "readSpecialPurposeBlock c data idx = Fail e1 \<Longrightarrow> readGraphicBlock c data idx = Fail e2 \<Longrightarrow>
     readTrailer data idx = Fail e3 \<Longrightarrow>
     dataBlockStep conf c data idx gs = Return (Fail (UnableToReadDataBlocks idx (length data)))"
  "readSpecialPurposeBlock c data idx = Panic \<Longrightarrow>
     dataBlockStep conf c data idx gs = Return Panic"
  "readSpecialPurposeBlock c data idx = Fail e1 \<Longrightarrow> readGraphicBlock c data idx = Panic \<Longrightarrow>
     dataBlockStep conf c data idx gs = Return Panic"
  by (simp_all add: dataBlockStep_def)

text \<open>
  A Graphic Control Extension without a rendering block behind it. When at least two
  bytes follow the extension, the Graphic Block is refused as a whole and the pass goes
  on to the Trailer at the index of the extension, where it finds the introducer. When
  fewer than two bytes follow, building the error message indexes behind the buffer.
\<close>

lemma graphic_block_fails_as_unit:
  assumes "readGraphicControlExtension data idx = Ok j"
    and "readApplicationExtension c data j = Fail e1"
    and "readGraphicRenderingBlock c data j = Fail e2"
  shows "j + 1 < length data \<Longrightarrow>
           readGraphicBlock c data idx
             = Fail (GraphicControlButNoRenderingBlock e2 (data ! j) (data ! (j + 1)))
           \<and> dataBlockStep conf c data idx gs
             = Return (Fail (UnableToReadDataBlocks idx (length data)))"
    and "length data \<le> j + 1 \<Longrightarrow>
           readGraphicBlock c data idx = Panic
           \<and> dataBlockStep conf c data idx gs = Return Panic"
proof -
  from readGraphicControlExtension_Ok[OF assms(1)]
  have g: "idx + 1 < length data" "data ! idx = extension" "data ! (idx + 1) = 0xf9"
    by simp_all
  then have sp: "readSpecialPurposeBlock c data idx
                  = Fail (UnableToReadSpecialPurposeBlock NotApplicationExtension)"
    by (simp add: readSpecialPurposeBlock_def readApplicationExtension_def)
  have tr: "readTrailer data idx = Fail NotTrailer"
    using g by (simp add: readTrailer_def extension_def trailer_def)
  show "readGraphicBlock c data idx
             = Fail (GraphicControlButNoRenderingBlock e2 (data ! j) (data ! (j + 1)))
           \<and> dataBlockStep conf c data idx gs
             = Return (Fail (UnableToReadDataBlocks idx (length data)))"
    if "j + 1 < length data"
    using that assms sp tr by (simp add: readGraphicBlock_def dataBlockStep_def)
  show "readGraphicBlock c data idx = Panic
           \<and> dataBlockStep conf c data idx gs = Return Panic"
    if "length data \<le> j + 1"
    using that assms sp by (auto simp: readGraphicBlock_def dataBlockStep_def)
qed

text \<open>
  C8. The claim holds for the order of the alternatives, and for a Graphic Control
  Extension that is followed by at least two bytes. It fails on the buffer below: a
  header, a logical screen descriptor, a Graphic Control Extension, and the trailer as
  the last byte. The control extension is read, no rendering block follows, and
  \<^verbatim>\<open>readGraphicBlock\<close> builds its error message from \<^verbatim>\<open>data[idx]\<close> and
  \<^verbatim>\<open>data[idx+1]\<close>; the second index is the length of the buffer. The program panics
  where the claim has the Graphic Block fail and the Trailer tried at the index of the
  extension (which would end the parse with the error "unable to read data blocks").
\<close>

theorem graphic_control_before_last_byte_panics:
  "readGraphicControlExtension
     [0x47, 0x49, 0x46, 0x38, 0x39, 0x61, 0, 0, 0, 0, 0, 0, 0,
      0x21, 0xf9, 4, 0, 0, 0, 0, 0,
      0x3b] 13 = Ok 21
   \<and> readApplicationExtension 22
     [0x47, 0x49, 0x46, 0x38, 0x39, 0x61, 0, 0, 0, 0, 0, 0, 0,
      0x21, 0xf9, 4, 0, 0, 0, 0, 0,
      0x3b] 21 = Fail NoExtensionIntroducer
   \<and> readGraphicRenderingBlock 22
     [0x47, 0x49, 0x46, 0x38, 0x39, 0x61, 0, 0, 0, 0, 0, 0, 0,
      0x21, 0xf9, 4, 0, 0, 0, 0, 0,
      0x3b] 21 = Fail NotGraphicRenderingBlock
   \<and> readGraphicBlock 22
     [0x47, 0x49, 0x46, 0x38, 0x39, 0x61, 0, 0, 0, 0, 0, 0, 0,
      0x21, 0xf9, 4, 0, 0, 0, 0, 0,
      0x3b] 13 = Panic
   \<and> readTrailer
     [0x47, 0x49, 0x46, 0x38, 0x39, 0x61, 0, 0, 0, 0, 0, 0, 0,
      0x21, 0xf9, 4, 0, 0, 0, 0, 0,
      0x3b] 13 = Fail NotTrailer
   \<and> dataBlockStep \<lparr>logLevel = 2, reprocess = False, outFile = '''', write' = False\<rparr> 22
     [0x47, 0x49, 0x46, 0x38, 0x39, 0x61, 0, 0, 0, 0, 0, 0, 0,
      0x21, 0xf9, 4, 0, 0, 0, 0, 0,
      0x3b] 13
     \<lparr>validSignature = True, readTrailerSeen = False, bytesOutstanding = 0, patches = []\<rparr>
     = Return Panic
   \<and> decodeGIF \<lparr>logLevel = 2, reprocess = False, outFile = '''', write' = False\<rparr> 22
     [0x47, 0x49, 0x46, 0x38, 0x39, 0x61, 0, 0, 0, 0, 0, 0, 0,
      0x21, 0xf9, 4, 0, 0, 0, 0, 0,
      0x3b]
     \<lparr>validSignature = False, readTrailerSeen = False, bytesOutstanding = 0, patches = []\<rparr>
     = Panic"
  by code_simp

section \<open>Truncated buffers\<close>



















section \<open>Buffers that end too early\<close>


subsection \<open>What exhaustion does to each production\<close>





















end
